theory Spec2Isabelle
  imports Main "HOL-Library.Word"
begin

section \<open>Errors\<close>

text \<open>
  The JavaScript throws plain \<open>Error\<close> objects told apart by their message. Each message
  that the repository itself throws is one constructor; everything raised by a library
  (the store driver, jsonwebtoken, node-forge, crypto) is \<open>Internal\<close>.

  \<^item> \<open>RefreshTokenInvalid\<close>: \<^verbatim>\<open>'Invalid or expired refresh token'\<close>
  \<^item> \<open>UserNotFound\<close>: \<^verbatim>\<open>'User not found'\<close>
  \<^item> \<open>InvalidDurationFormat\<close>: \<^verbatim>\<open>'Invalid expiry format: ...'\<close>
  \<^item> \<open>KeysNotFound\<close>: \<^verbatim>\<open>'User keys not found'\<close>
  \<^item> \<open>InvalidQuestionId\<close>: \<^verbatim>\<open>'Invalid question ID'\<close>
  \<^item> \<open>AnswerMismatch\<close>: \<^verbatim>\<open>'Answer mismatch'\<close>
  \<^item> \<open>SignatureMismatch\<close>: \<^verbatim>\<open>'Signature mismatch'\<close>
\<close>

datatype error =
    RefreshTokenInvalid
  | UserNotFound
  | InvalidDurationFormat
  | KeysNotFound
  | InvalidQuestionId
  | AnswerMismatch
  | SignatureMismatch
  | Internal

section \<open>JavaScript values\<close>

text \<open>
  A nullable string (a column that may be \<open>NULL\<close>, a header that may be absent) is a
  \<open>string option\<close>. \<open>truthy\<close> is JavaScript's truthiness on such a value: \<open>null\<close>,
  \<open>undefined\<close> and the empty string are falsy. \<open>js_or a b\<close> is \<^verbatim>\<open>a || b\<close>.
\<close>

fun truthy :: "string option \<Rightarrow> bool" where
  "truthy None = False"
| "truthy (Some s) = (s \<noteq> [])"

definition js_or :: "string option \<Rightarrow> string option \<Rightarrow> string option" where
  "js_or a b = (if truthy a then a else b)"

section \<open>Token codec (utils/sessionManager.js)\<close>

text \<open>
  \<^verbatim>\<open>expiry.match(/^(\d+)([smhd])$/)\<close>: the whole string is one or more ASCII digits
  followed by exactly one unit letter. \<open>parseInt(_, 10)\<close> of a digit string is its decimal
  value; the model keeps it as an exact natural number (JavaScript's doubles agree below
  \<open>2^53\<close>).
\<close>

definition is_digit :: "char \<Rightarrow> bool" where
  "is_digit c = (48 \<le> (of_char c :: nat) \<and> (of_char c :: nat) \<le> 57)"

definition parseInt10 :: "string \<Rightarrow> nat" where
  "parseInt10 ds = foldl (\<lambda>a c. 10 * a + ((of_char c :: nat) - 48)) 0 ds"

definition parseExpiryToSeconds :: "string \<Rightarrow> error + nat" where
  "parseExpiryToSeconds expiry =
     (if expiry = [] then Inl InvalidDurationFormat
      else
        let digits = butlast expiry; unit = last expiry in
        if digits \<noteq> [] \<and> list_all is_digit digits \<and> unit \<in> set ''smhd''
        then
          let v = parseInt10 digits in
          if unit = CHR ''s'' then Inr v
          else if unit = CHR ''m'' then Inr (v * 60)
          else if unit = CHR ''h'' then Inr (v * 3600)
          else if unit = CHR ''d'' then Inr (v * 86400)
          else Inl InvalidDurationFormat
        else Inl InvalidDurationFormat)"

text \<open>The payload signed into an access token, and what \<open>jwt.verify\<close> decodes.\<close>

record claims =
  userId :: nat
  userType :: "string option"
  adminRole :: "string option"

text \<open>The names of the errors \<open>jwt.verify\<close> throws.\<close>

datatype jwt_error = TokenExpiredError | JsonWebTokenError | NotBeforeError

text \<open>
  The module constants and the jsonwebtoken library. The library is not part of the
  repository, so it is a parameter: \<open>jwt_sign payload secret expiresIn\<close> is
  \<^verbatim>\<open>jwt.sign(payload, secret, {expiresIn})\<close> (\<open>None\<close> when it throws) and
  \<open>jwt_verify token secret\<close> is \<^verbatim>\<open>jwt.verify(token, secret)\<close> at the instant of the
  request.
\<close>

record env =
  JWT_SECRET :: string
  ACCESS_TOKEN_EXPIRY :: string
  REFRESH_TOKEN_EXPIRY :: string
  jwt_sign :: "claims \<Rightarrow> string \<Rightarrow> string \<Rightarrow> string option"
  jwt_verify :: "string \<Rightarrow> string \<Rightarrow> jwt_error + claims"

definition generateAccessToken :: "env \<Rightarrow> claims \<Rightarrow> string option" where
  "generateAccessToken e payload = jwt_sign e payload (JWT_SECRET e) (ACCESS_TOKEN_EXPIRY e)"

definition verifyAccessToken :: "env \<Rightarrow> string \<Rightarrow> jwt_error + claims" where
  "verifyAccessToken e token = jwt_verify e token (JWT_SECRET e)"

section \<open>The store\<close>

text \<open>One row of \<open>vottery_sessions\<close>; the column \<open>id\<close> is \<open>row_id\<close>.\<close>

record session =
  row_id :: nat
  user_id :: nat
  session_token :: string
  refresh_token :: string
  jwt_token_id :: string
  device_id :: "string option"
  ip_address :: "string option"
  user_agent :: "string option"
  user_type :: "string option"
  admin_role :: "string option"
  is_active :: bool
  created_at :: int
  expires_at :: int
  refresh_expires_at :: int
  last_activity :: int

text \<open>The columns of \<open>vottery_user_management\<close> that the session code reads.\<close>

record user_row =
  um_user_id :: nat
  um_user_type :: "string option"
  um_admin_role :: "string option"

text \<open>One row of \<open>vottery_biometric_keys\<close> and one of \<open>vottery_security_questions\<close>.\<close>

record key_row =
  bk_user_id :: nat
  public_key :: string
  encrypted_private_key :: string

record question_row =
  q_id :: nat
  q_user_id :: nat
  question :: string
  encrypted_answer :: string
  signature :: string

text \<open>
  The relational store with its four tables. \<open>issued\<close> counts the statements sent so far
  and \<open>fails n\<close> says that the \<open>n\<close>-th statement throws (a driver or connection fault); a
  statement that throws changes no table.
\<close>

record store =
  sessions :: "session list"
  users :: "user_row list"
  biometric_keys :: "key_row list"
  security_questions :: "question_row list"
  fails :: "nat \<Rightarrow> bool"
  issued :: nat

text \<open>
  \<^verbatim>\<open>query(text, params)\<close> of config/database.js: the statement \<open>stmt\<close> is run against the
  tables and its rows are returned, or the driver's error propagates.
\<close>

definition query :: "store \<Rightarrow> (store \<Rightarrow> 'r \<times> store) \<Rightarrow> (error + 'r) \<times> store" where
  "query st stmt =
     (let st1 = st\<lparr>issued := Suc (issued st)\<rparr> in
      if fails st (issued st) then (Inl Internal, st1)
      else (case stmt st1 of (r, st2) \<Rightarrow> (Inr r, st2)))"

text \<open>A \<open>SELECT\<close> over the session table, and an \<open>UPDATE\<close> or \<open>INSERT\<close> of it.\<close>

definition select_sessions :: "store \<Rightarrow> (session list \<Rightarrow> 'r) \<Rightarrow> (error + 'r) \<times> store" where
  "select_sessions st rows = query st (\<lambda>s. (rows (sessions s), s))"

definition write_sessions :: "store \<Rightarrow> (session list \<Rightarrow> session list) \<Rightarrow> (error + unit) \<times> store" where
  "write_sessions st upd = query st (\<lambda>s. ((), s\<lparr>sessions := upd (sessions s)\<rparr>))"

section \<open>Session store (utils/sessionManager.js)\<close>

record token_pair =
  accessToken :: string
  refreshToken :: string

text \<open>
  \<^verbatim>\<open>SELECT * FROM vottery_sessions WHERE refresh_token = $1 AND device_id = $2
     AND is_active = TRUE AND refresh_expires_at > NOW()\<close>
  (a \<open>NULL\<close> device id equals nothing).
\<close>

definition select_by_refresh :: "int \<Rightarrow> string \<Rightarrow> string \<Rightarrow> session list \<Rightarrow> session list" where
  "select_by_refresh now rt dev ss =
     filter (\<lambda>r. refresh_token r = rt \<and> device_id r = Some dev \<and> is_active r
                  \<and> now < refresh_expires_at r) ss"

text \<open>
  \<^verbatim>\<open>UPDATE vottery_sessions SET session_token=$1, refresh_token=$2, jwt_token_id=$3,
     expires_at=NOW() + $4 * INTERVAL '1 second',
     refresh_expires_at=NOW() + $5 * INTERVAL '1 second', last_activity=NOW() WHERE id=$6\<close>
\<close>

definition rotate_row :: "int \<Rightarrow> string \<Rightarrow> string \<Rightarrow> string \<Rightarrow> nat \<Rightarrow> nat \<Rightarrow> session \<Rightarrow> session" where
  "rotate_row now at rt jti asecs rsecs r =
     r\<lparr>session_token := at, refresh_token := rt, jwt_token_id := jti,
       expires_at := now + int asecs, refresh_expires_at := now + int rsecs,
       last_activity := now\<rparr>"

definition update_rotated ::
  "int \<Rightarrow> string \<Rightarrow> string \<Rightarrow> string \<Rightarrow> nat \<Rightarrow> nat \<Rightarrow> nat \<Rightarrow> session list \<Rightarrow> session list" where
  "update_rotated now at rt jti asecs rsecs i ss =
     map (\<lambda>r. if row_id r = i then rotate_row now at rt jti asecs rsecs r else r) ss"

text \<open>\<^verbatim>\<open>session.user_type || 'voter'\<close>, \<^verbatim>\<open>session.admin_role || 'analyst'\<close>.\<close>

definition rotation_claims :: "session \<Rightarrow> claims" where
  "rotation_claims s =
     \<lparr>userId = user_id s,
      userType = js_or (user_type s) (Some ''voter''),
      adminRole = js_or (admin_role s) (Some ''analyst'')\<rparr>"

text \<open>
  \<open>rotateRefreshToken\<close>. \<open>now\<close> is the store's clock; \<open>newRefreshToken\<close> is the value
  \<open>generateRefreshToken()\<close> draws and \<open>uuid\<close> the one \<open>crypto.randomUUID()\<close> draws.
\<close>

definition rotateRefreshToken ::
  "env \<Rightarrow> int \<Rightarrow> string \<Rightarrow> string \<Rightarrow> store \<Rightarrow> string \<Rightarrow> string \<Rightarrow> (error + token_pair) \<times> store" where
  "rotateRefreshToken e now newRefreshToken uuid st rt dev =
     (case select_sessions st (select_by_refresh now rt dev) of
        (Inl err, st1) \<Rightarrow> (Inl err, st1)
      | (Inr [], st1) \<Rightarrow> (Inl RefreshTokenInvalid, st1)
      | (Inr (s # _), st1) \<Rightarrow>
          (case generateAccessToken e (rotation_claims s) of
             None \<Rightarrow> (Inl Internal, st1)
           | Some newAccessToken \<Rightarrow>
               (case parseExpiryToSeconds (ACCESS_TOKEN_EXPIRY e) of
                  Inl err \<Rightarrow> (Inl err, st1)
                | Inr accessTokenSeconds \<Rightarrow>
                    (case parseExpiryToSeconds (REFRESH_TOKEN_EXPIRY e) of
                       Inl err \<Rightarrow> (Inl err, st1)
                     | Inr refreshTokenSeconds \<Rightarrow>
                         (case write_sessions st1 (update_rotated now newAccessToken newRefreshToken uuid
                                            accessTokenSeconds refreshTokenSeconds (row_id s)) of
                            (Inl err, st2) \<Rightarrow> (Inl err, st2)
                          | (Inr _, st2) \<Rightarrow>
                              (Inr \<lparr>accessToken = newAccessToken,
                                    refreshToken = newRefreshToken\<rparr>, st2))))))"

text \<open>
  \<^verbatim>\<open>SELECT user_type, admin_role FROM vottery_user_management WHERE user_id = $1\<close>
\<close>

definition select_user :: "nat \<Rightarrow> user_row list \<Rightarrow> user_row list" where
  "select_user uid us = filter (\<lambda>u. um_user_id u = uid) us"

text \<open>
  The \<open>INSERT INTO vottery_sessions\<close> of \<open>createSession\<close>; \<open>rid\<close> is the id the store gives
  the new row. \<^verbatim>\<open>deviceId || null\<close> and its like turn an empty string into \<open>NULL\<close>.
\<close>

definition insert_session ::
  "int \<Rightarrow> nat \<Rightarrow> nat \<Rightarrow> string \<Rightarrow> string \<Rightarrow> string \<Rightarrow> string option \<Rightarrow> string option \<Rightarrow> string option
     \<Rightarrow> string option \<Rightarrow> string option \<Rightarrow> nat \<Rightarrow> nat \<Rightarrow> session list \<Rightarrow> session list" where
  "insert_session now rid uid at rt jti dev ip ua ut ar asecs rsecs ss =
     ss @
         [\<lparr>row_id = rid, user_id = uid, session_token = at, refresh_token = rt,
           jwt_token_id = jti, device_id = js_or dev None, ip_address = js_or ip None,
           user_agent = js_or ua None, user_type = ut, admin_role = ar, is_active = True,
           created_at = now, expires_at = now + int asecs,
           refresh_expires_at = now + int rsecs, last_activity = now\<rparr>]"

definition createSession ::
  "env \<Rightarrow> int \<Rightarrow> string \<Rightarrow> nat \<Rightarrow> store \<Rightarrow> nat \<Rightarrow> string \<Rightarrow> string \<Rightarrow> string option \<Rightarrow> string option
     \<Rightarrow> string option \<Rightarrow> (error + token_pair) \<times> store" where
  "createSession e now jwtTokenId rid st uid at rt dev ip ua =
     (case parseExpiryToSeconds (ACCESS_TOKEN_EXPIRY e) of
        Inl err \<Rightarrow> (Inl err, st)
      | Inr accessTokenSeconds \<Rightarrow>
          (case parseExpiryToSeconds (REFRESH_TOKEN_EXPIRY e) of
             Inl err \<Rightarrow> (Inl err, st)
           | Inr refreshTokenSeconds \<Rightarrow>
               (case query st (\<lambda>s. (select_user uid (users s), s)) of
                  (Inl err, st1) \<Rightarrow> (Inl err, st1)
                | (Inr [], st1) \<Rightarrow> (Inl UserNotFound, st1)
                | (Inr (u # _), st1) \<Rightarrow>
                    (case write_sessions st1 (insert_session now rid uid at rt jwtTokenId dev ip ua
                                       (um_user_type u) (um_admin_role u)
                                       accessTokenSeconds refreshTokenSeconds) of
                       (Inl err, st2) \<Rightarrow> (Inl err, st2)
                     | (Inr _, st2) \<Rightarrow>
                         (Inr \<lparr>accessToken = at, refreshToken = rt\<rparr>, st2)))))"

text \<open>
  The \<open>WHERE\<close> clauses of the other session statements:
  \<^verbatim>\<open>SELECT * FROM vottery_sessions WHERE session_token = $1 AND is_active = TRUE
     AND expires_at > NOW()\<close>,
  \<^verbatim>\<open>UPDATE vottery_sessions SET last_activity = NOW() WHERE session_token = $1\<close>,
  \<^verbatim>\<open>UPDATE vottery_sessions SET is_active = FALSE WHERE session_token = $1\<close> and
  \<^verbatim>\<open>UPDATE vottery_sessions SET is_active = FALSE WHERE refresh_expires_at <= NOW()
     AND is_active = TRUE\<close>.
\<close>

definition select_by_token :: "int \<Rightarrow> string \<Rightarrow> session list \<Rightarrow> session list" where
  "select_by_token now tok ss =
     filter (\<lambda>r. session_token r = tok \<and> is_active r \<and> now < expires_at r) ss"

definition touch :: "int \<Rightarrow> string \<Rightarrow> session list \<Rightarrow> session list" where
  "touch now tok ss = map (\<lambda>r. if session_token r = tok then r\<lparr>last_activity := now\<rparr> else r) ss"

definition invalidateSession :: "store \<Rightarrow> string \<Rightarrow> (error + unit) \<times> store" where
  "invalidateSession st sessionToken =
     write_sessions st (map (\<lambda>r. if session_token r = sessionToken then r\<lparr>is_active := False\<rparr> else r))"

definition cleanupExpiredSessions :: "int \<Rightarrow> store \<Rightarrow> (error + unit) \<times> store" where
  "cleanupExpiredSessions now st =
     write_sessions st
       (map (\<lambda>r. if refresh_expires_at r \<le> now \<and> is_active r then r\<lparr>is_active := False\<rparr> else r))"

section \<open>Authentication gate (middleware/auth.js)\<close>

text \<open>
  \<^verbatim>\<open>s.split(d)\<close> for a one-character separator, and \<^verbatim>\<open>s.trim()\<close>. A header value
  reaches the handler decoded as Latin-1, so the white space that \<open>trim\<close> removes is, among
  the characters that can occur, U+0009 to U+000D, U+0020 and U+00A0.
\<close>

fun split_on :: "'a \<Rightarrow> 'a list \<Rightarrow> 'a list list" where
  "split_on d [] = [[]]"
| "split_on d (c # cs) =
     (if c = d then [] # split_on d cs
      else (case split_on d cs of p # ps \<Rightarrow> (c # p) # ps | [] \<Rightarrow> [[c]]))"

definition is_space :: "char \<Rightarrow> bool" where
  "is_space c = ((9 \<le> (of_char c :: nat) \<and> (of_char c :: nat) \<le> 13)
                 \<or> (of_char c :: nat) = 32 \<or> (of_char c :: nat) = 160)"

definition trim :: "string \<Rightarrow> string" where
  "trim s = rev (dropWhile is_space (rev (dropWhile is_space s)))"

text \<open>\<^verbatim>\<open>authHeader?.split(' ')[1]?.trim()\<close>\<close>

definition bearer :: "string option \<Rightarrow> string option" where
  "bearer authHeader =
     (case authHeader of
        None \<Rightarrow> None
      | Some h \<Rightarrow> (case split_on CHR '' '' h of _ # t # _ \<Rightarrow> Some (trim t) | _ \<Rightarrow> None))"

text \<open>The parts of the request the gate reads; a body field is \<open>None\<close> when there is no body.\<close>

record request =
  authorization :: "string option"
  x_refresh_token :: "string option"
  x_device_id :: "string option"
  body_refreshToken :: "string option"
  body_device_id :: "string option"

text \<open>
  What the gate does with the response: \<open>Reject status code\<close> is
  \<^verbatim>\<open>res.status(status).json({success: false, code, ...})\<close>, and \<open>Next user rotated\<close> is
  \<^verbatim>\<open>next()\<close> with \<open>req.user\<close> and \<open>req.tokenRotated\<close> set. Beside it the gate returns
  the pair it has written to the response headers \<open>x-access-token\<close> and
  \<open>x-refresh-token\<close>, if any.
\<close>

datatype outcome = Reject nat string | Next claims bool

text \<open>
  Lines 78 to 115 of \<open>authenticateToken\<close>: the session check with the active token. An
  exception of the store reaches the outer \<open>catch\<close>.
\<close>

definition session_check :: "int \<Rightarrow> store \<Rightarrow> string \<Rightarrow> claims \<Rightarrow> bool \<Rightarrow> outcome \<times> store" where
  "session_check now st activeAccessToken decoded tokenRotated =
     (case select_sessions st (select_by_token now activeAccessToken) of
        (Inl _, st1) \<Rightarrow> (Reject 500 ''SERVER_ERROR'', st1)
      | (Inr [], st1) \<Rightarrow> (Reject 401 ''SESSION_INVALID'', st1)
      | (Inr (_ # _), st1) \<Rightarrow>
          (case write_sessions st1 (touch now activeAccessToken) of
             (Inl _, st2) \<Rightarrow> (Reject 500 ''SERVER_ERROR'', st2)
           | (Inr _, st2) \<Rightarrow>
               (Next \<lparr>userId = userId decoded, userType = userType decoded,
                      adminRole = adminRole decoded\<rparr> tokenRotated, st2)))"

definition authenticateToken ::
  "env \<Rightarrow> int \<Rightarrow> string \<Rightarrow> string \<Rightarrow> store \<Rightarrow> request \<Rightarrow> (outcome \<times> token_pair option) \<times> store" where
  "authenticateToken e now newRefreshToken uuid st req =
     (let refreshTok = js_or (x_refresh_token req) (body_refreshToken req);
          deviceId = js_or (x_device_id req) (body_device_id req)
      in
      case bearer (authorization req) of
        None \<Rightarrow> ((Reject 401 ''NO_ACCESS_TOKEN'', None), st)
      | Some tok \<Rightarrow>
          if tok = [] then ((Reject 401 ''NO_ACCESS_TOKEN'', None), st)
          else
            (case verifyAccessToken e tok of
               Inr decoded \<Rightarrow>
                 (case session_check now st tok decoded False of (out, st1) \<Rightarrow> ((out, None), st1))
             | Inl TokenExpiredError \<Rightarrow>
                 (case (refreshTok, deviceId) of
                    (Some rt, Some dev) \<Rightarrow>
                      if rt = [] \<or> dev = []
                      then ((Reject 401 ''TOKEN_EXPIRED_NO_REFRESH'', None), st)
                      else
                        (case rotateRefreshToken e now newRefreshToken uuid st rt dev of
                           (Inl _, st1) \<Rightarrow> ((Reject 401 ''REFRESH_TOKEN_INVALID'', None), st1)
                         | (Inr tokens, st1) \<Rightarrow>
                             (case verifyAccessToken e (accessToken tokens) of
                                Inl _ \<Rightarrow> ((Reject 401 ''REFRESH_TOKEN_INVALID'', Some tokens), st1)
                              | Inr decoded \<Rightarrow>
                                  (case session_check now st1 (accessToken tokens) decoded True of
                                     (out, st2) \<Rightarrow> ((out, Some tokens), st2))))
                  | _ \<Rightarrow> ((Reject 401 ''TOKEN_EXPIRED_NO_REFRESH'', None), st))
             | Inl _ \<Rightarrow> ((Reject 403 ''ACCESS_TOKEN_INVALID'', None), st)))"

section \<open>Security questions (controllers/biometricFallbackController.js)\<close>

text \<open>
  node-forge and crypto are parameters. \<open>load_private_key b\<close> is
  \<^verbatim>\<open>forge.pki.privateKeyFromPem(forge.util.decode64(b))\<close>, \<open>rsa_decrypt k c\<close> is
  \<^verbatim>\<open>k.decrypt(forge.util.decode64(c), 'RSA-OAEP')\<close> (\<open>None\<close> when they throw), and
  \<open>sha256_hex s\<close> is \<^verbatim>\<open>crypto.createHash('sha256').update(s).digest('hex')\<close>.
\<close>

record 'k forge =
  load_private_key :: "string \<Rightarrow> 'k option"
  rsa_decrypt :: "'k \<Rightarrow> string \<Rightarrow> string option"
  sha256_hex :: "string \<Rightarrow> string"

text \<open>
  One supplied answer. A question id is a natural number on both sides, so the strict
  equality \<^verbatim>\<open>q.id === a.questionId\<close> is equality of numbers.
\<close>

record supplied =
  questionId :: nat
  answer :: string

text \<open>The loop \<^verbatim>\<open>for (const a of answers)\<close> over the rows the second query returned.\<close>

fun verify_each :: "'k forge \<Rightarrow> 'k \<Rightarrow> question_row list \<Rightarrow> supplied list \<Rightarrow> error + bool" where
  "verify_each lib privateKey rows [] = Inr True"
| "verify_each lib privateKey rows (a # as) =
     (case find (\<lambda>q. q_id q = questionId a) rows of
        None \<Rightarrow> Inl InvalidQuestionId
      | Some dbQ \<Rightarrow>
          (case rsa_decrypt lib privateKey (encrypted_answer dbQ) of
             None \<Rightarrow> Inl Internal
           | Some decryptedAnswer \<Rightarrow>
               if decryptedAnswer \<noteq> answer a then Inl AnswerMismatch
               else if sha256_hex lib decryptedAnswer \<noteq> signature dbQ then Inl SignatureMismatch
               else verify_each lib privateKey rows as))"

text \<open>
  \<^verbatim>\<open>SELECT encrypted_private_key FROM vottery_biometric_keys WHERE user_id=$1\<close> and
  \<^verbatim>\<open>SELECT id, encrypted_answer, signature FROM vottery_security_questions
     WHERE user_id=$1 AND id = ANY($2)\<close>
\<close>

definition select_keys :: "nat \<Rightarrow> key_row list \<Rightarrow> key_row list" where
  "select_keys uid ks = filter (\<lambda>k. bk_user_id k = uid) ks"

definition select_questions :: "nat \<Rightarrow> nat list \<Rightarrow> question_row list \<Rightarrow> question_row list" where
  "select_questions uid questionIds qs =
     filter (\<lambda>q. q_user_id q = uid \<and> q_id q \<in> set questionIds) qs"

definition verifySecurityAnswers ::
  "'k forge \<Rightarrow> store \<Rightarrow> nat \<Rightarrow> supplied list \<Rightarrow> (error + bool) \<times> store" where
  "verifySecurityAnswers lib st uid answers =
     (case query st (\<lambda>s. (select_keys uid (biometric_keys s), s)) of
        (Inl err, st1) \<Rightarrow> (Inl err, st1)
      | (Inr [], st1) \<Rightarrow> (Inl KeysNotFound, st1)
      | (Inr (k # _), st1) \<Rightarrow>
          (case load_private_key lib (encrypted_private_key k) of
             None \<Rightarrow> (Inl Internal, st1)
           | Some privateKey \<Rightarrow>
               (let questionIds = map questionId answers in
                case query st1 (\<lambda>s. (select_questions uid questionIds (security_questions s), s)) of
                  (Inl err, st2) \<Rightarrow> (Inl err, st2)
                | (Inr rows, st2) \<Rightarrow> (verify_each lib privateKey rows answers, st2))))"

section \<open>Field encryption (utils/encryption.js)\<close>

text \<open>
  A JavaScript string is a sequence of 16-bit code units, paired or not. \<open>js_string\<close>
  gives the string whose code units are the characters of an ASCII literal. A value
  handed to or returned by the two functions is \<open>null\<close>, a string, or any other value
  (\<open>undefined\<close>, a number, an object). A \<open>Buffer\<close> is a list of bytes.
\<close>

type_synonym jsstring = "16 word list"

definition unit_of :: "char \<Rightarrow> 16 word" where
  "unit_of c = of_nat (of_char c)"

definition js_string :: "string \<Rightarrow> jsstring" where
  "js_string s = map unit_of s"

datatype jsval = Null | Str jsstring | NonString nat

text \<open>
  \<^verbatim>\<open>buf.toString('hex')\<close> and \<^verbatim>\<open>Buffer.from(s, 'hex')\<close>; the latter stops at the first
  pair that is not two hex digits and drops an odd last character.
  \<^verbatim>\<open>decipher.update(s, 'hex', ...)\<close> throws on a string of odd length.
\<close>

definition hex_digit :: "nat \<Rightarrow> char" where
  "hex_digit d = ''0123456789abcdef'' ! d"

definition hex_val :: "16 word \<Rightarrow> nat option" where
  "hex_val u =
     (let n = unat u in
      if 48 \<le> n \<and> n \<le> 57 then Some (n - 48)
      else if 97 \<le> n \<and> n \<le> 102 then Some (n - 87)
      else if 65 \<le> n \<and> n \<le> 70 then Some (n - 55)
      else None)"

fun to_hex :: "string \<Rightarrow> string" where
  "to_hex [] = []"
| "to_hex (c # cs) =
     hex_digit ((of_char c :: nat) div 16) # hex_digit ((of_char c :: nat) mod 16) # to_hex cs"

fun from_hex :: "jsstring \<Rightarrow> string" where
  "from_hex (a # b # rest) =
     (case (hex_val a, hex_val b) of
        (Some h, Some l) \<Rightarrow> char_of (16 * h + l) # from_hex rest
      | _ \<Rightarrow> [])"
| "from_hex _ = []"

definition hex_input :: "jsstring \<Rightarrow> string option" where
  "hex_input s = (if even (length s) then Some (from_hex s) else None)"






text \<open>
  The decoding \<open>'utf8'\<close> of \<^verbatim>\<open>decipher.update(_, 'hex', 'utf8')\<close> and
  \<^verbatim>\<open>decipher.final('utf8')\<close>. \<open>utf8_parse\<close> reads a well-formed UTF-8 byte sequence
  (shortest form, no surrogate, at most U+10FFFF) into its code points and is \<open>None\<close> on
  any other sequence; \<open>units_of\<close> writes a code point as one code unit or a surrogate
  pair.
\<close>

definition is_cont :: "nat \<Rightarrow> bool" where
  "is_cont b = (128 \<le> b \<and> b < 192)"

definition decode_step :: "nat list \<Rightarrow> (nat \<times> nat list) option" where
  "decode_step bs =
     (case bs of
        [] \<Rightarrow> None
      | b0 # r0 \<Rightarrow>
          if b0 < 128 then Some (b0, r0)
          else if 194 \<le> b0 \<and> b0 < 224 then
            (case r0 of
               b1 # r1 \<Rightarrow>
                 if is_cont b1 then Some ((b0 - 192) * 64 + (b1 - 128), r1) else None
             | _ \<Rightarrow> None)
          else if 224 \<le> b0 \<and> b0 < 240 then
            (case r0 of
               b1 # b2 # r2 \<Rightarrow>
                 let c = (b0 - 224) * 4096 + (b1 - 128) * 64 + (b2 - 128) in
                 if is_cont b1 \<and> is_cont b2 \<and> 2048 \<le> c \<and> \<not> (55296 \<le> c \<and> c < 57344)
                 then Some (c, r2) else None
             | _ \<Rightarrow> None)
          else if 240 \<le> b0 \<and> b0 < 245 then
            (case r0 of
               b1 # b2 # b3 # r3 \<Rightarrow>
                 let c = (b0 - 240) * 262144 + (b1 - 128) * 4096 + (b2 - 128) * 64 + (b3 - 128) in
                 if is_cont b1 \<and> is_cont b2 \<and> is_cont b3 \<and> 65536 \<le> c \<and> c < 1114112
                 then Some (c, r3) else None
             | _ \<Rightarrow> None)
          else None)"

function utf8_parse :: "nat list \<Rightarrow> nat list option" where
  "utf8_parse bs =
     (if bs = [] then Some []
      else
        (case decode_step bs of
           None \<Rightarrow> None
         | Some (c, r) \<Rightarrow> (case utf8_parse r of None \<Rightarrow> None | Some cs \<Rightarrow> Some (c # cs))))"
  by pat_completeness auto
termination
  by (relation "measure length")
     (auto simp: decode_step_def Let_def split: list.splits if_splits)

declare utf8_parse.simps [simp del]

definition units_of :: "nat \<Rightarrow> nat list" where
  "units_of c =
     (if c < 65536 then [c]
      else [55296 + (c - 65536) div 1024, 56320 + (c - 65536) mod 1024])"

text \<open>
  The crypto module, a parameter. \<open>gcm_encrypt key iv aad plaintext\<close> is AES-256-GCM and
  gives the ciphertext and the authentication tag; \<open>gcm_decrypt key iv aad tag ciphertext\<close>
  gives the plaintext. Each is \<open>None\<close> when \<open>createCipheriv\<close>, \<open>setAAD\<close>, \<open>setAuthTag\<close>,
  \<open>update\<close> or \<open>final\<close> throws, which for decryption includes a tag that does not verify.
  \<open>utf8_replace bytes\<close> is the string the module decodes from bytes that are not
  well-formed UTF-8 (it puts U+FFFD in place of the ill-formed parts).
\<close>

record node_crypto =
  gcm_encrypt :: "string \<Rightarrow> string \<Rightarrow> string \<Rightarrow> string \<Rightarrow> (string \<times> string) option"
  gcm_decrypt :: "string \<Rightarrow> string \<Rightarrow> string \<Rightarrow> string \<Rightarrow> string \<Rightarrow> string option"
  utf8_replace :: "string \<Rightarrow> jsstring"

definition utf8_decode :: "node_crypto \<Rightarrow> string \<Rightarrow> jsstring" where
  "utf8_decode lib bs =
     (case utf8_parse (map of_char bs) of
        Some cs \<Rightarrow> map of_nat (concat (map units_of cs))
      | None \<Rightarrow> utf8_replace lib bs)"


text \<open>
  The body of the \<open>try\<close> block of \<open>decryptSensitiveData\<close> past its guard; \<open>None\<close> when a
  statement of it throws. With only two fields \<open>encryptedHex\<close> is \<open>undefined\<close> and
  \<open>update\<close> throws.
\<close>

definition decrypt_attempt :: "node_crypto \<Rightarrow> string \<Rightarrow> jsstring \<Rightarrow> jsstring option" where
  "decrypt_attempt lib key s =
     (case split_on (unit_of CHR '':'') s of
        ivHex # authTagHex # encryptedHex # _ \<Rightarrow>
          (case hex_input encryptedHex of
             None \<Rightarrow> None
           | Some ct \<Rightarrow>
               (case gcm_decrypt lib key (from_hex ivHex) ''vottery'' (from_hex authTagHex) ct of
                  None \<Rightarrow> None
                | Some decrypted \<Rightarrow> Some (utf8_decode lib decrypted)))
      | _ \<Rightarrow> None)"

definition decryptSensitiveData :: "node_crypto \<Rightarrow> string \<Rightarrow> jsval \<Rightarrow> jsval" where
  "decryptSensitiveData lib key encrypted =
     (case encrypted of
        Str s \<Rightarrow>
          if s = [] \<or> unit_of CHR '':'' \<notin> set s then encrypted
          else (case decrypt_attempt lib key s of None \<Rightarrow> encrypted | Some decrypted \<Rightarrow> Str decrypted)
      | _ \<Rightarrow> encrypted)"

section \<open>Notions used by the properties\<close>

text \<open>The order of the two expiries of a session row.\<close>

definition session_inv :: "session \<Rightarrow> bool" where
  "session_inv s = (expires_at s \<le> refresh_expires_at s)"

text \<open>
  \<open>fully_rotated tp i old new\<close>: the table \<open>new\<close> is \<open>old\<close> where every row with id \<open>i\<close>
  carries both tokens of \<open>tp\<close> and every other row is as it was.
\<close>

definition fully_rotated :: "token_pair \<Rightarrow> nat \<Rightarrow> session list \<Rightarrow> session list \<Rightarrow> bool" where
  "fully_rotated tp i old new =
     (length new = length old \<and>
      (\<forall>k < length old.
         if row_id (old ! k) = i
         then session_token (new ! k) = accessToken tp \<and> refresh_token (new ! k) = refreshToken tp
         else new ! k = old ! k))"

text \<open>
  The question a user has stored under an id, and an answer that passes every check of
  the verification: its question is stored, the stored ciphertext decrypts to exactly the
  supplied text, and the hash of that text is the stored signature.
\<close>

definition stored_question :: "store \<Rightarrow> nat \<Rightarrow> nat \<Rightarrow> question_row option" where
  "stored_question st uid qid = find (\<lambda>q. q_user_id q = uid \<and> q_id q = qid) (security_questions st)"

definition answer_passes :: "'k forge \<Rightarrow> 'k \<Rightarrow> store \<Rightarrow> nat \<Rightarrow> supplied \<Rightarrow> bool" where
  "answer_passes lib key st uid a =
     (case stored_question st uid (questionId a) of
        None \<Rightarrow> False
      | Some q \<Rightarrow> rsa_decrypt lib key (encrypted_answer q) = Some (answer a)
                  \<and> sha256_hex lib (answer a) = signature q)"

text \<open>
  The envelope format that the comments of utils/encryption.js give,
  \<^verbatim>\<open>iv:authTag:encryptedHex\<close>: exactly three fields, each a string of hex digit pairs.
\<close>

definition is_hex :: "jsstring \<Rightarrow> bool" where
  "is_hex s = (even (length s) \<and> list_all (\<lambda>c. hex_val c \<noteq> None) s)"

definition well_formed_envelope :: "jsstring \<Rightarrow> bool" where
  "well_formed_envelope s =
     (case split_on (unit_of CHR '':'') s of
        [a, b, c] \<Rightarrow> is_hex a \<and> is_hex b \<and> is_hex c
      | _ \<Rightarrow> False)"




section \<open>Sample data\<close>

text \<open>
  A toy token library whose tokens spell out the admin role, a toy RSA and hash, and a toy
  cipher with a constant tag. They stand in for the real libraries where a property is
  evaluated on concrete data.
\<close>

definition demo_sign :: "claims \<Rightarrow> string \<Rightarrow> string \<Rightarrow> string option" where
  "demo_sign c secret expiresIn =
     Some (''jwt.'' @ (case adminRole c of None \<Rightarrow> ''null'' | Some r \<Rightarrow> r))"

definition demo_verify :: "string \<Rightarrow> string \<Rightarrow> jwt_error + claims" where
  "demo_verify tok secret =
     (if tok = ''stale'' then Inl TokenExpiredError
      else
        (case split_on CHR ''.'' tok of
           [h, r] \<Rightarrow>
             if h = ''jwt''
             then Inr \<lparr>userId = 42, userType = Some ''voter'',
                       adminRole = (if r = ''null'' then None else Some r)\<rparr>
             else Inl JsonWebTokenError
         | _ \<Rightarrow> Inl JsonWebTokenError))"

definition demo_env :: env where
  "demo_env =
     \<lparr>JWT_SECRET = ''secret'', ACCESS_TOKEN_EXPIRY = ''1m'', REFRESH_TOKEN_EXPIRY = ''2m'',
      jwt_sign = demo_sign, jwt_verify = demo_verify\<rparr>"

definition demo_session :: session where
  "demo_session =
     \<lparr>row_id = 1, user_id = 42, session_token = ''jwt.analyst'', refresh_token = ''r1'',
      jwt_token_id = ''j1'', device_id = Some ''dev1'', ip_address = None, user_agent = None,
      user_type = Some ''voter'', admin_role = Some ''analyst'', is_active = True,
      created_at = 0, expires_at = 60, refresh_expires_at = 120, last_activity = 0\<rparr>"

definition demo_store :: store where
  "demo_store =
     \<lparr>sessions = [demo_session],
      users = [\<lparr>um_user_id = 42, um_user_type = Some ''voter'', um_admin_role = Some ''analyst''\<rparr>],
      biometric_keys = [\<lparr>bk_user_id = 42, public_key = ''PUB'', encrypted_private_key = ''PRIV''\<rparr>],
      security_questions =
        [\<lparr>q_id = 7, q_user_id = 42, question = ''pet name?'', encrypted_answer = ''enc:Rex'',
          signature = ''sha:Rex''\<rparr>],
      fails = (\<lambda>_. False), issued = 0\<rparr>"

text \<open>The same store with a session whose role snapshot is \<open>NULL\<close>.\<close>

definition null_role_store :: store where
  "null_role_store =
     demo_store\<lparr>sessions := [demo_session\<lparr>user_type := None, admin_role := None\<rparr>]\<rparr>"

definition demo_request :: request where
  "demo_request =
     \<lparr>authorization = Some ''Bearer jwt.analyst'', x_refresh_token = None, x_device_id = None,
      body_refreshToken = None, body_device_id = None\<rparr>"

definition demo_forge :: "nat forge" where
  "demo_forge =
     \<lparr>load_private_key = (\<lambda>b. if b = ''PRIV'' then Some 5 else None),
      rsa_decrypt = (\<lambda>k c. if take 4 c = ''enc:'' then Some (drop 4 c) else None),
      sha256_hex = (\<lambda>s. ''sha:'' @ s)\<rparr>"

definition demo_gcm :: node_crypto where
  "demo_gcm =
     \<lparr>gcm_encrypt = (\<lambda>key iv aad pt. Some (rev pt, replicate 16 CHR ''t'')),
      gcm_decrypt = (\<lambda>key iv aad tag ct.
         if length iv = 16 \<and> tag = replicate 16 CHR ''t'' then Some (rev ct) else None),
      utf8_replace = (\<lambda>bs. [65533])\<rparr>"

text \<open>The environment with the access lifetime misconfigured.\<close>

definition two_days_env :: env where
  "two_days_env = demo_env\<lparr>ACCESS_TOKEN_EXPIRY := ''2 days''\<rparr>"

definition demo_iv :: string where
  "demo_iv = replicate 16 CHR ''i''"

section \<open>Session store: rotation and creation\<close>

lemma parseExpiry_error: "parseExpiryToSeconds x = Inl err \<Longrightarrow> err = InvalidDurationFormat"
  by (auto simp: parseExpiryToSeconds_def Let_def split: if_splits)

lemma select_sessions_eq:
  "select_sessions st rows =
     (if fails st (issued st) then Inl Internal else Inr (rows (sessions st)),
      st\<lparr>issued := Suc (issued st)\<rparr>)"
  by (simp add: select_sessions_def query_def Let_def)

lemma write_sessions_eq:
  "write_sessions st upd =
     (if fails st (issued st) then (Inl Internal, st\<lparr>issued := Suc (issued st)\<rparr>)
      else (Inr (), st\<lparr>issued := Suc (issued st), sessions := upd (sessions st)\<rparr>))"
  by (simp add: write_sessions_def query_def Let_def)

lemma select_by_refresh_Nil:
  "select_by_refresh now rt dev ss = [] \<longleftrightarrow>
     (\<forall>r \<in> set ss. \<not> (refresh_token r = rt \<and> device_id r = Some dev \<and> is_active r \<and> now < refresh_expires_at r))"
  by (simp add: select_by_refresh_def filter_empty_conv)

lemma select_by_refresh_Cons:
  "select_by_refresh now rt dev ss = s # rest \<Longrightarrow>
     s \<in> set ss \<and> refresh_token s = rt \<and> device_id s = Some dev \<and> is_active s \<and> now < refresh_expires_at s"
  unfolding select_by_refresh_def
  by (induction ss) (auto split: if_splits)

text \<open>The seven ways through rotateRefreshToken.\<close>

lemma rotate_cases:
  fixes e now nrt uuid st rt dev
  defines "st1 \<equiv> st\<lparr>issued := Suc (issued st)\<rparr>"
  defines "st2 \<equiv> st\<lparr>issued := Suc (Suc (issued st))\<rparr>"
  defines "res \<equiv> rotateRefreshToken e now nrt uuid st rt dev"
  obtains
    (select_fault) "fails st (issued st)" "res = (Inl Internal, st1)"
  | (no_match) "\<not> fails st (issued st)" "select_by_refresh now rt dev (sessions st) = []"
      "res = (Inl RefreshTokenInvalid, st1)"
  | (sign_fault) s rest where "\<not> fails st (issued st)"
      "select_by_refresh now rt dev (sessions st) = s # rest"
      "generateAccessToken e (rotation_claims s) = None" "res = (Inl Internal, st1)"
  | (bad_access) s rest at where "\<not> fails st (issued st)"
      "select_by_refresh now rt dev (sessions st) = s # rest"
      "generateAccessToken e (rotation_claims s) = Some at"
      "parseExpiryToSeconds (ACCESS_TOKEN_EXPIRY e) = Inl InvalidDurationFormat"
      "res = (Inl InvalidDurationFormat, st1)"
  | (bad_refresh) s rest at a where "\<not> fails st (issued st)"
      "select_by_refresh now rt dev (sessions st) = s # rest"
      "generateAccessToken e (rotation_claims s) = Some at"
      "parseExpiryToSeconds (ACCESS_TOKEN_EXPIRY e) = Inr a"
      "parseExpiryToSeconds (REFRESH_TOKEN_EXPIRY e) = Inl InvalidDurationFormat"
      "res = (Inl InvalidDurationFormat, st1)"
  | (update_fault) s rest at a r where "\<not> fails st (issued st)"
      "select_by_refresh now rt dev (sessions st) = s # rest"
      "generateAccessToken e (rotation_claims s) = Some at"
      "parseExpiryToSeconds (ACCESS_TOKEN_EXPIRY e) = Inr a"
      "parseExpiryToSeconds (REFRESH_TOKEN_EXPIRY e) = Inr r"
      "fails st (Suc (issued st))"
      "res = (Inl Internal, st2)"
  | (rotated) s rest at a r where "\<not> fails st (issued st)"
      "select_by_refresh now rt dev (sessions st) = s # rest"
      "generateAccessToken e (rotation_claims s) = Some at"
      "parseExpiryToSeconds (ACCESS_TOKEN_EXPIRY e) = Inr a"
      "parseExpiryToSeconds (REFRESH_TOKEN_EXPIRY e) = Inr r"
      "\<not> fails st (Suc (issued st))"
      "res = (Inr \<lparr>accessToken = at, refreshToken = nrt\<rparr>,
              st2\<lparr>sessions := update_rotated now at nrt uuid a r (row_id s) (sessions st)\<rparr>)"
proof (cases "fails st (issued st)")
  case True
  then have "res = (Inl Internal, st1)"
    by (simp add: res_def st1_def rotateRefreshToken_def select_sessions_eq)
  with True show ?thesis by (rule select_fault)
next
  case nf: False
  show ?thesis
  proof (cases "select_by_refresh now rt dev (sessions st)")
    case Nil
    with nf have "res = (Inl RefreshTokenInvalid, st1)"
      by (simp add: res_def st1_def rotateRefreshToken_def select_sessions_eq)
    with nf Nil show ?thesis by (rule no_match)
  next
    case (Cons s rest)
    show ?thesis
    proof (cases "generateAccessToken e (rotation_claims s)")
      case None
      with nf Cons have "res = (Inl Internal, st1)"
        by (simp add: res_def st1_def rotateRefreshToken_def select_sessions_eq)
      with nf Cons None show ?thesis by (rule sign_fault)
    next
      case (Some at)
      show ?thesis
      proof (cases "parseExpiryToSeconds (ACCESS_TOKEN_EXPIRY e)")
        case (Inl err)
        then have pa: "parseExpiryToSeconds (ACCESS_TOKEN_EXPIRY e) = Inl InvalidDurationFormat"
          using parseExpiry_error by blast
        with nf Cons Some have "res = (Inl InvalidDurationFormat, st1)"
          by (simp add: res_def st1_def rotateRefreshToken_def select_sessions_eq)
        with nf Cons Some pa show ?thesis by (rule bad_access)
      next
        case pa: (Inr a)
        show ?thesis
        proof (cases "parseExpiryToSeconds (REFRESH_TOKEN_EXPIRY e)")
          case (Inl err)
          then have pr: "parseExpiryToSeconds (REFRESH_TOKEN_EXPIRY e) = Inl InvalidDurationFormat"
            using parseExpiry_error by blast
          with nf Cons Some pa have "res = (Inl InvalidDurationFormat, st1)"
            by (simp add: res_def st1_def rotateRefreshToken_def select_sessions_eq)
          with nf Cons Some pa pr show ?thesis by (rule bad_refresh)
        next
          case pr: (Inr r)
          show ?thesis
          proof (cases "fails st (Suc (issued st))")
            case True
            with nf Cons Some pa pr have "res = (Inl Internal, st2)"
              by (simp add: res_def st2_def rotateRefreshToken_def select_sessions_eq write_sessions_eq)
            with nf Cons Some pa pr True show ?thesis by (rule update_fault)
          next
            case False
            with nf Cons Some pa pr have "res = (Inr \<lparr>accessToken = at, refreshToken = nrt\<rparr>,
              st2\<lparr>sessions := update_rotated now at nrt uuid a r (row_id s) (sessions st)\<rparr>)"
              by (simp add: res_def st2_def rotateRefreshToken_def select_sessions_eq write_sessions_eq)
            with nf Cons Some pa pr False show ?thesis by (rule rotated)
          qed
        qed
      qed
    qed
  qed
qed


lemma fully_rotated_update:
  "fully_rotated \<lparr>accessToken = at, refreshToken = rt\<rparr> i ss (update_rotated now at rt jti a r i ss)"
  by (simp add: fully_rotated_def update_rotated_def rotate_row_def)

lemma rotate_sessions:
  "sessions (snd (rotateRefreshToken e now nrt uuid st rt dev)) = sessions st \<or>
   (\<exists>at a r i. parseExpiryToSeconds (ACCESS_TOKEN_EXPIRY e) = Inr a \<and>
       parseExpiryToSeconds (REFRESH_TOKEN_EXPIRY e) = Inr r \<and>
       sessions (snd (rotateRefreshToken e now nrt uuid st rt dev)) =
         update_rotated now at nrt uuid a r i (sessions st))"
  by (cases rule: rotate_cases [of st e now nrt uuid rt dev]) auto

lemma create_sessions:
  "sessions (snd (createSession e now jti rid st uid at rt dev ip ua)) = sessions st \<or>
   (\<exists>a r ut ar. parseExpiryToSeconds (ACCESS_TOKEN_EXPIRY e) = Inr a \<and>
       parseExpiryToSeconds (REFRESH_TOKEN_EXPIRY e) = Inr r \<and>
       sessions (snd (createSession e now jti rid st uid at rt dev ip ua)) =
          insert_session now rid uid at rt jti dev ip ua ut ar a r (sessions st))"
proof (cases "parseExpiryToSeconds (ACCESS_TOKEN_EXPIRY e)")
  case (Inl err)
  then show ?thesis by (simp add: createSession_def)
next
  case pa: (Inr a)
  show ?thesis
  proof (cases "parseExpiryToSeconds (REFRESH_TOKEN_EXPIRY e)")
    case (Inl err)
    with pa show ?thesis by (simp add: createSession_def)
  next
    case pr: (Inr r)
    show ?thesis
    proof (cases "fails st (issued st)")
      case True
      with pa pr show ?thesis by (simp add: createSession_def query_def Let_def)
    next
      case nf: False
      show ?thesis
      proof (cases "select_user uid (users st)")
        case Nil
        with pa pr nf show ?thesis by (simp add: createSession_def query_def Let_def)
      next
        case (Cons u rest)
        with pa pr nf show ?thesis
          by (cases "fails st (Suc (issued st))")
             (auto simp add: createSession_def query_def Let_def write_sessions_eq)
      qed
    qed
  qed
qed

lemma inv_update_rotated:
  "a \<le> r \<Longrightarrow> list_all session_inv ss \<Longrightarrow> list_all session_inv (update_rotated now at rt jti a r i ss)"
  by (induction ss) (simp_all add: update_rotated_def rotate_row_def session_inv_def)

lemma inv_insert_session:
  "a \<le> r \<Longrightarrow> list_all session_inv ss \<Longrightarrow>
   list_all session_inv (insert_session now rid uid at rt jti dev ip ua ut ar a r ss)"
  by (simp add: insert_session_def session_inv_def)

lemma parse_1m: "parseExpiryToSeconds ''1m'' = Inr 60"
  by (simp add: parseExpiryToSeconds_def is_digit_def parseInt10_def)

lemma parse_2m: "parseExpiryToSeconds ''2m'' = Inr 120"
  by (simp add: parseExpiryToSeconds_def is_digit_def parseInt10_def)

lemma parse_15m: "parseExpiryToSeconds ''15m'' = Inr 900"
  by (simp add: parseExpiryToSeconds_def is_digit_def parseInt10_def)

lemma demo_rotation:
  "rotateRefreshToken demo_env 100 ''r2'' ''u2'' demo_store ''r1'' ''dev1'' =
     (Inr \<lparr>accessToken = ''jwt.analyst'', refreshToken = ''r2''\<rparr>,
      demo_store\<lparr>issued := 2,
        sessions := [demo_session\<lparr>session_token := ''jwt.analyst'', refresh_token := ''r2'',
           jwt_token_id := ''u2'', expires_at := 160, refresh_expires_at := 220,
           last_activity := 100\<rparr>]\<rparr>)"
  by (simp add: rotateRefreshToken_def select_sessions_eq write_sessions_eq demo_store_def
        demo_session_def demo_env_def select_by_refresh_def generateAccessToken_def
        rotation_claims_def js_or_def demo_sign_def parse_1m parse_2m update_rotated_def
        rotate_row_def numeral_2_eq_2)

lemma demo_rotation_wrong_device:
  "rotateRefreshToken demo_env 100 ''r2'' ''u2'' demo_store ''r1'' ''dev2'' =
     (Inl RefreshTokenInvalid, demo_store\<lparr>issued := 1\<rparr>)"
  by (simp add: rotateRefreshToken_def select_sessions_eq demo_store_def demo_session_def
        select_by_refresh_def)

text \<open>
  C2. With the store answering the lookup, rotation fails with \<open>RefreshTokenInvalid\<close>
  exactly when no active session row whose refresh expiry is still ahead matches the
  refresh token and the device id. A wrong refresh token, a wrong device id and an
  expired session each give the very same result, error and store alike.
\<close>

theorem rotate_invalid_iff_no_match:
  assumes "\<not> fails st (issued st)"
  shows "(fst (rotateRefreshToken e now nrt uuid st rt dev) = Inl RefreshTokenInvalid \<longleftrightarrow>
            (\<forall>r \<in> set (sessions st).
               \<not> (refresh_token r = rt \<and> device_id r = Some dev \<and> is_active r
                  \<and> now < refresh_expires_at r))) \<and>
         ((\<forall>r \<in> set (sessions st). refresh_token r \<noteq> rt) \<longrightarrow>
            rotateRefreshToken e now nrt uuid st rt dev =
              (Inl RefreshTokenInvalid, st\<lparr>issued := Suc (issued st)\<rparr>)) \<and>
         ((\<forall>r \<in> set (sessions st). device_id r \<noteq> Some dev) \<longrightarrow>
            rotateRefreshToken e now nrt uuid st rt dev =
              (Inl RefreshTokenInvalid, st\<lparr>issued := Suc (issued st)\<rparr>)) \<and>
         ((\<forall>r \<in> set (sessions st). refresh_expires_at r \<le> now) \<longrightarrow>
            rotateRefreshToken e now nrt uuid st rt dev =
              (Inl RefreshTokenInvalid, st\<lparr>issued := Suc (issued st)\<rparr>))"
proof -
  have none: "select_by_refresh now rt dev (sessions st) = [] \<Longrightarrow>
      rotateRefreshToken e now nrt uuid st rt dev =
        (Inl RefreshTokenInvalid, st\<lparr>issued := Suc (issued st)\<rparr>)"
    using assms by (simp add: rotateRefreshToken_def select_sessions_eq)
  have iff: "fst (rotateRefreshToken e now nrt uuid st rt dev) = Inl RefreshTokenInvalid \<longleftrightarrow>
            (\<forall>r \<in> set (sessions st).
               \<not> (refresh_token r = rt \<and> device_id r = Some dev \<and> is_active r
                  \<and> now < refresh_expires_at r))"
    using assms
    by (cases rule: rotate_cases [of st e now nrt uuid rt dev])
       (auto simp: select_by_refresh_Nil dest: select_by_refresh_Cons)
  have a: "(\<forall>r \<in> set (sessions st). refresh_token r \<noteq> rt) \<longrightarrow>
      select_by_refresh now rt dev (sessions st) = []"
    by (auto simp: select_by_refresh_Nil)
  have b: "(\<forall>r \<in> set (sessions st). device_id r \<noteq> Some dev) \<longrightarrow>
      select_by_refresh now rt dev (sessions st) = []"
    by (auto simp: select_by_refresh_Nil)
  have c: "(\<forall>r \<in> set (sessions st). refresh_expires_at r \<le> now) \<longrightarrow>
      select_by_refresh now rt dev (sessions st) = []"
    by (auto simp: select_by_refresh_Nil)
  from iff a b c none show ?thesis by blast
qed

theorem rotate_invalid_iff_no_match_witness:
  "\<not> fails demo_store (issued demo_store) \<and>
   rotateRefreshToken demo_env 100 ''r2'' ''u2'' demo_store ''r1'' ''dev2'' =
     (Inl RefreshTokenInvalid, demo_store\<lparr>issued := Suc (issued demo_store)\<rparr>) \<and>
   rotateRefreshToken demo_env 100 ''zz'' ''u2'' demo_store ''r0'' ''dev1'' =
     (Inl RefreshTokenInvalid, demo_store\<lparr>issued := Suc (issued demo_store)\<rparr>) \<and>
   rotateRefreshToken demo_env 120 ''r2'' ''u2'' demo_store ''r1'' ''dev1'' =
     (Inl RefreshTokenInvalid, demo_store\<lparr>issued := Suc (issued demo_store)\<rparr>) \<and>
   fst (rotateRefreshToken demo_env 100 ''r2'' ''u2'' demo_store ''r1'' ''dev1'') \<noteq> Inl RefreshTokenInvalid"
proof -
  have h: "\<not> fails demo_store (issued demo_store)" by (simp add: demo_store_def)
  show ?thesis
    using h
      rotate_invalid_iff_no_match [OF h, of demo_env 100 "''r2''" "''u2''" "''r1''" "''dev2''"]
      rotate_invalid_iff_no_match [OF h, of demo_env 100 "''zz''" "''u2''" "''r0''" "''dev1''"]
      rotate_invalid_iff_no_match [OF h, of demo_env 120 "''r2''" "''u2''" "''r1''" "''dev1''"]
      rotate_invalid_iff_no_match [OF h, of demo_env 100 "''r2''" "''u2''" "''r1''" "''dev1''"]
    by (simp add: demo_store_def demo_session_def)
qed

lemma parse_2_days: "parseExpiryToSeconds ''2 days'' = Inl InvalidDurationFormat"
  by (simp add: parseExpiryToSeconds_def is_digit_def)

lemma rotated_rows:
  "update_rotated now at rt jti a r i ss =
     map (\<lambda>x. if row_id x = i
               then x\<lparr>session_token := at, refresh_token := rt, jwt_token_id := jti,
                      expires_at := now + int a, refresh_expires_at := now + int r,
                      last_activity := now\<rparr>
               else x) ss"
  by (simp add: update_rotated_def rotate_row_def)

text \<open>
  C3, as stated, fails on the error raised: with the access lifetime configured as
  \<open>2 days\<close>, which the token library accepts, a matching rotation raises the duration
  format error, neither \<open>RefreshTokenInvalid\<close> nor \<open>Internal\<close>.
\<close>

theorem rotate_error_kind_counterexample:
  "rotateRefreshToken two_days_env 100 ''r2'' ''u2'' demo_store ''r1'' ''dev1'' =
     (Inl InvalidDurationFormat, demo_store\<lparr>issued := 1\<rparr>) \<and>
   InvalidDurationFormat \<noteq> RefreshTokenInvalid \<and> InvalidDurationFormat \<noteq> Internal"
  by (simp add: rotateRefreshToken_def select_sessions_eq two_days_env_def demo_env_def
        demo_store_def demo_session_def select_by_refresh_def generateAccessToken_def
        rotation_claims_def js_or_def demo_sign_def parse_2_days)

text \<open>
  C3, amended. Rotation does not apply in part. Either it returns a token pair: then the
  first row that matches the refresh token and the device id, and every row sharing its
  id, carries both tokens of the pair, the new generation id, both new expiries and the
  new activity time, and every other row is as it was. Or it raises, and then the session
  table is exactly as before; the error is \<open>RefreshTokenInvalid\<close> only when no row
  matches, the duration format error only when a configured lifetime is malformed, and
  \<open>Internal\<close> otherwise.
\<close>

theorem rotate_all_or_nothing:
  "case rotateRefreshToken e now nrt uuid st rt dev of
     (Inr tp, st') \<Rightarrow>
        refreshToken tp = nrt \<and>
        (\<exists>s rest a r.
            filter (\<lambda>x. refresh_token x = rt \<and> device_id x = Some dev \<and> is_active x
                         \<and> now < refresh_expires_at x) (sessions st) = s # rest \<and>
            parseExpiryToSeconds (ACCESS_TOKEN_EXPIRY e) = Inr a \<and>
            parseExpiryToSeconds (REFRESH_TOKEN_EXPIRY e) = Inr r \<and>
            sessions st' =
              map (\<lambda>x. if row_id x = row_id s
                        then x\<lparr>session_token := accessToken tp, refresh_token := refreshToken tp,
                               jwt_token_id := uuid, expires_at := now + int a,
                               refresh_expires_at := now + int r, last_activity := now\<rparr>
                        else x) (sessions st) \<and>
            fully_rotated tp (row_id s) (sessions st) (sessions st'))
   | (Inl err, st') \<Rightarrow>
        sessions st' = sessions st \<and>
        (err = RefreshTokenInvalid \<or> err = Internal \<or> err = InvalidDurationFormat) \<and>
        (err = RefreshTokenInvalid \<longrightarrow>
           (\<forall>x \<in> set (sessions st).
              \<not> (refresh_token x = rt \<and> device_id x = Some dev \<and> is_active x
                 \<and> now < refresh_expires_at x))) \<and>
        (err = InvalidDurationFormat \<longrightarrow>
           parseExpiryToSeconds (ACCESS_TOKEN_EXPIRY e) = Inl InvalidDurationFormat \<or>
           parseExpiryToSeconds (REFRESH_TOKEN_EXPIRY e) = Inl InvalidDurationFormat)"
proof (cases rule: rotate_cases [of st e now nrt uuid rt dev])
  case (rotated s rest at a r)
  let ?tp = "\<lparr>accessToken = at, refreshToken = nrt\<rparr>"
  let ?new = "update_rotated now at nrt uuid a r (row_id s) (sessions st)"
  have f: "filter (\<lambda>x. refresh_token x = rt \<and> device_id x = Some dev \<and> is_active x
                         \<and> now < refresh_expires_at x) (sessions st) = s # rest"
    using rotated(2) by (simp add: select_by_refresh_def)
  have m: "?new = map (\<lambda>x. if row_id x = row_id s
                        then x\<lparr>session_token := accessToken ?tp, refresh_token := refreshToken ?tp,
                               jwt_token_id := uuid, expires_at := now + int a,
                               refresh_expires_at := now + int r, last_activity := now\<rparr>
                        else x) (sessions st)"
    by (simp add: rotated_rows)
  have fr: "fully_rotated ?tp (row_id s) (sessions st) ?new"
    by (rule fully_rotated_update)
  from f rotated(4,5) m fr have
    "\<exists>s rest a r.
            filter (\<lambda>x. refresh_token x = rt \<and> device_id x = Some dev \<and> is_active x
                         \<and> now < refresh_expires_at x) (sessions st) = s # rest \<and>
            parseExpiryToSeconds (ACCESS_TOKEN_EXPIRY e) = Inr a \<and>
            parseExpiryToSeconds (REFRESH_TOKEN_EXPIRY e) = Inr r \<and>
            ?new =
              map (\<lambda>x. if row_id x = row_id s
                        then x\<lparr>session_token := accessToken ?tp, refresh_token := refreshToken ?tp,
                               jwt_token_id := uuid, expires_at := now + int a,
                               refresh_expires_at := now + int r, last_activity := now\<rparr>
                        else x) (sessions st) \<and>
            fully_rotated ?tp (row_id s) (sessions st) ?new"
    by blast
  with rotated(7) show ?thesis by simp
next
  case no_match
  then show ?thesis by (simp add: select_by_refresh_Nil)
qed simp_all

theorem rotate_all_or_nothing_witness:
  "rotateRefreshToken demo_env 100 ''r2'' ''u2'' demo_store ''r1'' ''dev1'' =
     (Inr \<lparr>accessToken = ''jwt.analyst'', refreshToken = ''r2''\<rparr>,
      demo_store\<lparr>issued := 2,
        sessions := [demo_session\<lparr>session_token := ''jwt.analyst'', refresh_token := ''r2'',
           jwt_token_id := ''u2'', expires_at := 160, refresh_expires_at := 220,
           last_activity := 100\<rparr>]\<rparr>) \<and>
   fully_rotated \<lparr>accessToken = ''jwt.analyst'', refreshToken = ''r2''\<rparr> (row_id demo_session)
      (sessions demo_store)
      (sessions (snd (rotateRefreshToken demo_env 100 ''r2'' ''u2'' demo_store ''r1'' ''dev1''))) \<and>
   fst (rotateRefreshToken demo_env 100 ''r2'' ''u2'' demo_store ''r1'' ''dev2'') = Inl RefreshTokenInvalid \<and>
   sessions (snd (rotateRefreshToken demo_env 100 ''r2'' ''u2'' demo_store ''r1'' ''dev2'')) =
      sessions demo_store"
proof -
  have s: "filter (\<lambda>x. refresh_token x = ''r1'' \<and> device_id x = Some ''dev1'' \<and> is_active x
                         \<and> 100 < refresh_expires_at x) (sessions demo_store) = [demo_session]"
    by (simp add: demo_store_def demo_session_def)
  have w1: "fully_rotated \<lparr>accessToken = ''jwt.analyst'', refreshToken = ''r2''\<rparr> (row_id demo_session)
      (sessions demo_store)
      (sessions (snd (rotateRefreshToken demo_env 100 ''r2'' ''u2'' demo_store ''r1'' ''dev1'')))"
    using rotate_all_or_nothing [where e = demo_env and now = 100 and nrt = "''r2''"
      and uuid = "''u2''" and st = demo_store and rt = "''r1''" and dev = "''dev1''"]
    by (auto simp: demo_rotation s)
  have w2: "sessions (snd (rotateRefreshToken demo_env 100 ''r2'' ''u2'' demo_store ''r1'' ''dev2'')) =
      sessions demo_store"
    using rotate_all_or_nothing [where e = demo_env and now = 100 and nrt = "''r2''"
      and uuid = "''u2''" and st = demo_store and rt = "''r1''" and dev = "''dev2''"]
    by (simp add: demo_rotation_wrong_device)
  from w1 w2 show ?thesis
    by (simp add: demo_rotation demo_rotation_wrong_device)
qed

lemma null_role_rotation:
  "fst (rotateRefreshToken demo_env 100 ''r2'' ''u2'' null_role_store ''r1'' ''dev1'') =
     Inr \<lparr>accessToken = ''jwt.analyst'', refreshToken = ''r2''\<rparr>"
  by (simp add: rotateRefreshToken_def select_sessions_eq write_sessions_eq null_role_store_def
        demo_store_def demo_session_def demo_env_def select_by_refresh_def generateAccessToken_def
        rotation_claims_def js_or_def demo_sign_def parse_1m parse_2m)

lemma demo_verify_analyst:
  "verifyAccessToken demo_env ''jwt.analyst'' =
     Inr \<lparr>userId = 42, userType = Some ''voter'', adminRole = Some ''analyst''\<rparr>"
  by (simp add: verifyAccessToken_def demo_env_def demo_verify_def)

text \<open>
  C4, as stated, fails: a session whose snapshot has no admin role and no user type is
  rotated into a token that claims the role \<open>analyst\<close> and the type \<open>voter\<close>.
\<close>

theorem rotate_claims_verbatim_counterexample:
  "fst (rotateRefreshToken demo_env 100 ''r2'' ''u2'' null_role_store ''r1'' ''dev1'') =
     Inr \<lparr>accessToken = ''jwt.analyst'', refreshToken = ''r2''\<rparr> \<and>
   verifyAccessToken demo_env ''jwt.analyst'' =
     Inr \<lparr>userId = 42, userType = Some ''voter'', adminRole = Some ''analyst''\<rparr> \<and>
   map admin_role (sessions null_role_store) = [None] \<and>
   map user_type (sessions null_role_store) = [None] \<and>
   map rotation_claims (sessions null_role_store) =
     [\<lparr>userId = 42, userType = Some ''voter'', adminRole = Some ''analyst''\<rparr>]"
  by (simp add: null_role_rotation demo_verify_analyst)
     (simp add: null_role_store_def demo_store_def demo_session_def rotation_claims_def js_or_def)

text \<open>
  C4, amended. A successful rotation signs the claims of a matching session row: its user
  id, its user type or \<open>voter\<close> when that is null or empty, and its admin role or
  \<open>analyst\<close> when that is null or empty. The user table plays no part: replacing it
  changes nothing of the result.
\<close>

theorem rotate_claims_from_snapshot:
  assumes "fst (rotateRefreshToken e now nrt uuid st rt dev) = Inr tp"
  shows "(\<exists>s \<in> set (sessions st).
            refresh_token s = rt \<and> device_id s = Some dev \<and> is_active s \<and> now < refresh_expires_at s \<and>
            jwt_sign e
              \<lparr>userId = user_id s,
               userType = (if truthy (user_type s) then user_type s else Some ''voter''),
               adminRole = (if truthy (admin_role s) then admin_role s else Some ''analyst'')\<rparr>
              (JWT_SECRET e) (ACCESS_TOKEN_EXPIRY e) = Some (accessToken tp)) \<and>
         fst (rotateRefreshToken e now nrt uuid (st\<lparr>users := us\<rparr>) rt dev) = Inr tp"
  using assms
proof (cases rule: rotate_cases [of st e now nrt uuid rt dev])
  case (rotated s rest at a r)
  from rotated(2) have m: "s \<in> set (sessions st) \<and> refresh_token s = rt \<and> device_id s = Some dev
      \<and> is_active s \<and> now < refresh_expires_at s"
    by (rule select_by_refresh_Cons)
  from rotated(7) assms have tp: "tp = \<lparr>accessToken = at, refreshToken = nrt\<rparr>" by simp
  have sg: "jwt_sign e
              \<lparr>userId = user_id s,
               userType = (if truthy (user_type s) then user_type s else Some ''voter''),
               adminRole = (if truthy (admin_role s) then admin_role s else Some ''analyst'')\<rparr>
              (JWT_SECRET e) (ACCESS_TOKEN_EXPIRY e) = Some (accessToken tp)"
    using rotated(3) tp by (simp add: generateAccessToken_def rotation_claims_def js_or_def)
  have "fst (rotateRefreshToken e now nrt uuid (st\<lparr>users := us\<rparr>) rt dev) = Inr tp"
    using rotated tp
    by (simp add: rotateRefreshToken_def select_sessions_eq write_sessions_eq)
  with m sg show ?thesis by blast
qed simp_all

theorem rotate_claims_from_snapshot_witness:
  "fst (rotateRefreshToken demo_env 100 ''r2'' ''u2'' demo_store ''r1'' ''dev1'') =
     Inr \<lparr>accessToken = ''jwt.analyst'', refreshToken = ''r2''\<rparr> \<and>
   jwt_sign demo_env \<lparr>userId = 42, userType = Some ''voter'', adminRole = Some ''analyst''\<rparr>
     (JWT_SECRET demo_env) (ACCESS_TOKEN_EXPIRY demo_env) = Some ''jwt.analyst'' \<and>
   fst (rotateRefreshToken demo_env 100 ''r2'' ''u2'' (demo_store\<lparr>users := []\<rparr>) ''r1'' ''dev1'') =
     Inr \<lparr>accessToken = ''jwt.analyst'', refreshToken = ''r2''\<rparr>"
proof -
  have h: "fst (rotateRefreshToken demo_env 100 ''r2'' ''u2'' demo_store ''r1'' ''dev1'') =
     Inr \<lparr>accessToken = ''jwt.analyst'', refreshToken = ''r2''\<rparr>"
    by (simp add: demo_rotation)
  show ?thesis
    using h rotate_claims_from_snapshot [OF h, of "[]"]
    by (simp add: demo_store_def demo_session_def)
qed

text \<open>
  C7, as stated, fails: with the access lifetime configured to fifteen minutes and the
  refresh lifetime left at its default of two, \<open>createSession\<close> writes a row whose access
  expiry lies after its refresh expiry.
\<close>

theorem expiry_order_counterexample:
  "map (\<lambda>s. (expires_at s, refresh_expires_at s))
     (sessions (snd (createSession (demo_env\<lparr>ACCESS_TOKEN_EXPIRY := ''15m''\<rparr>) 0 ''j2'' 2
        demo_store 42 ''a2'' ''r2'' (Some ''dev2'') None None))) = [(60, 120), (900, 120)] \<and>
   \<not> list_all session_inv
     (sessions (snd (createSession (demo_env\<lparr>ACCESS_TOKEN_EXPIRY := ''15m''\<rparr>) 0 ''j2'' 2
        demo_store 42 ''a2'' ''r2'' (Some ''dev2'') None None)))"
  by (simp add: createSession_def demo_env_def parse_15m parse_2m query_def write_sessions_eq
        select_user_def insert_session_def demo_store_def demo_session_def session_inv_def Let_def)

text \<open>
  C7, amended. When the configured access lifetime is at most the configured refresh
  lifetime, as with the defaults of one and two minutes, \<open>createSession\<close> and
  \<open>rotateRefreshToken\<close> keep every session row's access expiry at or before its refresh
  expiry.
\<close>

theorem expiry_order_preserved:
  assumes "parseExpiryToSeconds (ACCESS_TOKEN_EXPIRY e) = Inr a"
    and "parseExpiryToSeconds (REFRESH_TOKEN_EXPIRY e) = Inr r"
    and "a \<le> r"
    and "list_all session_inv (sessions st)"
  shows "list_all session_inv (sessions (snd (createSession e now jti rid st uid at rt dev ip ua))) \<and>
         list_all session_inv (sessions (snd (rotateRefreshToken e now nrt uuid st rt' dev')))"
proof
  show "list_all session_inv (sessions (snd (createSession e now jti rid st uid at rt dev ip ua)))"
    using create_sessions [of e now jti rid st uid at rt dev ip ua] assms
    by (auto simp: inv_insert_session)
  show "list_all session_inv (sessions (snd (rotateRefreshToken e now nrt uuid st rt' dev')))"
    using rotate_sessions [of e now nrt uuid st rt' dev'] assms
    by (auto simp: inv_update_rotated)
qed

theorem expiry_order_preserved_witness:
  "parseExpiryToSeconds (ACCESS_TOKEN_EXPIRY demo_env) = Inr 60 \<and>
   parseExpiryToSeconds (REFRESH_TOKEN_EXPIRY demo_env) = Inr 120 \<and>
   (60 :: nat) \<le> 120 \<and>
   list_all session_inv (sessions demo_store) \<and>
   list_all session_inv
     (sessions (snd (createSession demo_env 0 ''j2'' 2 demo_store 42 ''a2'' ''r2'' (Some ''dev2'') None None))) \<and>
   list_all session_inv
     (sessions (snd (rotateRefreshToken demo_env 100 ''r2'' ''u2'' demo_store ''r1'' ''dev1'')))"
proof -
  have a: "parseExpiryToSeconds (ACCESS_TOKEN_EXPIRY demo_env) = Inr 60"
    by (simp add: demo_env_def parse_1m)
  have r: "parseExpiryToSeconds (REFRESH_TOKEN_EXPIRY demo_env) = Inr 120"
    by (simp add: demo_env_def parse_2m)
  have le: "(60 :: nat) \<le> 120" by simp
  have inv: "list_all session_inv (sessions demo_store)"
    by (simp add: demo_store_def demo_session_def session_inv_def)
  show ?thesis
    using a r le inv
      expiry_order_preserved [OF a r le inv, where now = 0 and jti = "''j2''" and rid = 2
        and uid = 42 and at = "''a2''" and rt = "''r2''" and dev = "Some ''dev2''"
        and ip = None and ua = None]
      expiry_order_preserved [OF a r le inv, where now = 100 and nrt = "''r2''"
        and uuid = "''u2''" and rt' = "''r1''" and dev' = "''dev1''"]
    by simp
qed


section \<open>Authentication gate\<close>


lemma session_check_ok:
  assumes "\<not> fails st (issued st)" "\<not> fails st (Suc (issued st))"
    and "select_by_token now tok (sessions st) \<noteq> []"
  shows "session_check now st tok d rot =
     (Next \<lparr>userId = userId d, userType = userType d, adminRole = adminRole d\<rparr> rot,
      st\<lparr>issued := Suc (Suc (issued st)), sessions := touch now tok (sessions st)\<rparr>)"
  using assms
  by (cases "select_by_token now tok (sessions st)")
     (simp_all add: session_check_def select_sessions_eq write_sessions_eq)

lemma select_by_token_nonempty:
  "select_by_token now tok ss \<noteq> [] \<longleftrightarrow>
     (\<exists>s \<in> set ss. session_token s = tok \<and> is_active s \<and> now < expires_at s)"
  by (auto simp: select_by_token_def filter_empty_conv)

lemma demo_bearer: "bearer (authorization demo_request) = Some ''jwt.analyst''"
  by (simp add: demo_request_def bearer_def trim_def is_space_def)

lemma demo_bearer_stale: "bearer (Some ''Bearer stale'') = Some ''stale''"
  by (simp add: bearer_def trim_def is_space_def)

text \<open>
  C1. A request whose bearer token verifies and equals the session token of an active row
  whose access expiry is still ahead passes the gate, the store answering both statements:
  the identity handed on is the user id, user type and admin role decoded from the token,
  no rotation is flagged, no header is set, and every row with that session token has its
  last activity set to now.
\<close>

theorem gate_accepts_valid_token:
  assumes "bearer (authorization req) = Some tok" and "tok \<noteq> []"
    and "verifyAccessToken e tok = Inr d"
    and "\<exists>s \<in> set (sessions st). session_token s = tok \<and> is_active s \<and> now < expires_at s"
    and "\<not> fails st (issued st)" and "\<not> fails st (Suc (issued st))"
  shows "authenticateToken e now nrt uuid st req =
     ((Next \<lparr>userId = userId d, userType = userType d, adminRole = adminRole d\<rparr> False, None),
      st\<lparr>issued := Suc (Suc (issued st)),
         sessions := map (\<lambda>r. if session_token r = tok then r\<lparr>last_activity := now\<rparr> else r)
                       (sessions st)\<rparr>)"
proof -
  from assms(4) have "select_by_token now tok (sessions st) \<noteq> []"
    by (simp add: select_by_token_nonempty)
  with assms(5,6) have "session_check now st tok d False =
     (Next \<lparr>userId = userId d, userType = userType d, adminRole = adminRole d\<rparr> False,
      st\<lparr>issued := Suc (Suc (issued st)), sessions := touch now tok (sessions st)\<rparr>)"
    by (rule session_check_ok)
  with assms(1-3) show ?thesis
    by (simp add: authenticateToken_def Let_def touch_def)
qed

theorem gate_accepts_valid_token_witness:
  "bearer (authorization demo_request) = Some ''jwt.analyst'' \<and>
   verifyAccessToken demo_env ''jwt.analyst'' =
     Inr \<lparr>userId = 42, userType = Some ''voter'', adminRole = Some ''analyst''\<rparr> \<and>
   authenticateToken demo_env 10 ''r2'' ''u2'' demo_store demo_request =
     ((Next \<lparr>userId = 42, userType = Some ''voter'', adminRole = Some ''analyst''\<rparr> False, None),
      demo_store\<lparr>issued := 2, sessions := [demo_session\<lparr>last_activity := 10\<rparr>]\<rparr>)"
proof -
  have b: "bearer (authorization demo_request) = Some ''jwt.analyst''" by (rule demo_bearer)
  have ne: "''jwt.analyst'' \<noteq> []" by simp
  have v: "verifyAccessToken demo_env ''jwt.analyst'' =
     Inr \<lparr>userId = 42, userType = Some ''voter'', adminRole = Some ''analyst''\<rparr>"
    by (rule demo_verify_analyst)
  have s: "\<exists>s \<in> set (sessions demo_store).
      session_token s = ''jwt.analyst'' \<and> is_active s \<and> 10 < expires_at s"
    by (simp add: demo_store_def demo_session_def)
  have f1: "\<not> fails demo_store (issued demo_store)" by (simp add: demo_store_def)
  have f2: "\<not> fails demo_store (Suc (issued demo_store))" by (simp add: demo_store_def)
  show ?thesis
    using b v gate_accepts_valid_token [OF b ne v s f1 f2, of "''r2''" "''u2''"]
    by (simp add: demo_store_def demo_session_def numeral_2_eq_2)
qed

text \<open>
  C6. When the bearer token fails verification as expired and the refresh token or the
  device id is missing or empty, in header and body alike, the gate answers 401 with the
  code \<open>TOKEN_EXPIRED_NO_REFRESH\<close>; it sets no header and sends no statement to the
  store, which is returned as it was, statement counter included.
\<close>

theorem gate_expired_without_refresh:
  assumes "bearer (authorization req) = Some tok" and "tok \<noteq> []"
    and "verifyAccessToken e tok = Inl TokenExpiredError"
    and "\<not> truthy (js_or (x_refresh_token req) (body_refreshToken req)) \<or>
         \<not> truthy (js_or (x_device_id req) (body_device_id req))"
  shows "authenticateToken e now nrt uuid st req =
           ((Reject 401 ''TOKEN_EXPIRED_NO_REFRESH'', None), st)"
  using assms
  by (cases "js_or (x_refresh_token req) (body_refreshToken req)";
      cases "js_or (x_device_id req) (body_device_id req)")
     (auto simp add: authenticateToken_def Let_def)

theorem gate_expired_without_refresh_witness:
  "bearer (Some ''Bearer stale'') = Some ''stale'' \<and>
   verifyAccessToken demo_env ''stale'' = Inl TokenExpiredError \<and>
   authenticateToken demo_env 10 ''r2'' ''u2'' demo_store
      (demo_request\<lparr>authorization := Some ''Bearer stale'', x_refresh_token := Some ''r1''\<rparr>) =
     ((Reject 401 ''TOKEN_EXPIRED_NO_REFRESH'', None), demo_store)"
proof -
  let ?req = "demo_request\<lparr>authorization := Some ''Bearer stale'', x_refresh_token := Some ''r1''\<rparr>"
  have b: "bearer (authorization ?req) = Some ''stale''" by (simp add: demo_bearer_stale)
  have ne: "''stale'' \<noteq> []" by simp
  have v: "verifyAccessToken demo_env ''stale'' = Inl TokenExpiredError"
    by (simp add: verifyAccessToken_def demo_env_def demo_verify_def)
  have m: "\<not> truthy (js_or (x_refresh_token ?req) (body_refreshToken ?req)) \<or>
         \<not> truthy (js_or (x_device_id ?req) (body_device_id ?req))"
    by (simp add: demo_request_def js_or_def)
  show ?thesis
    using v gate_expired_without_refresh [OF b ne v m, of 10 "''r2''" "''u2''" demo_store]
    by (simp add: demo_bearer_stale)
qed


section \<open>Security questions\<close>


lemma find_filter: "find P (filter Q xs) = find (\<lambda>x. Q x \<and> P x) xs"
  by (induction xs) auto

lemma find_selected_question:
  "qid \<in> set ids \<Longrightarrow>
   find (\<lambda>q. q_id q = qid) (select_questions uid ids (security_questions st)) = stored_question st uid qid"
  unfolding select_questions_def stored_question_def find_filter
  by (rule find_cong) auto

text \<open>The loop on the rows of the second query, told in terms of the stored questions.\<close>

lemma verify_each_head:
  assumes "questionId a \<in> set ids"
  shows "verify_each lib key (select_questions uid ids (security_questions st)) (a # as) =
     (case stored_question st uid (questionId a) of
        None \<Rightarrow> Inl InvalidQuestionId
      | Some q \<Rightarrow>
          (case rsa_decrypt lib key (encrypted_answer q) of
             None \<Rightarrow> Inl Internal
           | Some p \<Rightarrow>
               if p \<noteq> answer a then Inl AnswerMismatch
               else if sha256_hex lib p \<noteq> signature q then Inl SignatureMismatch
               else verify_each lib key (select_questions uid ids (security_questions st)) as))"
  using assms by (simp add: find_selected_question)

lemma verify_each_pass:
  assumes "questionId a \<in> set ids" "answer_passes lib key st uid a"
  shows "verify_each lib key (select_questions uid ids (security_questions st)) (a # as) =
         verify_each lib key (select_questions uid ids (security_questions st)) as"
  unfolding verify_each_head [OF assms(1)]
  using assms(2) by (auto simp: answer_passes_def split: option.splits)

lemma verify_each_prefix:
  assumes "set (map questionId pre) \<subseteq> set ids" "list_all (answer_passes lib key st uid) pre"
  shows "verify_each lib key (select_questions uid ids (security_questions st)) (pre @ rest) =
         verify_each lib key (select_questions uid ids (security_questions st)) rest"
  using assms
proof (induction pre)
  case Nil
  then show ?case by simp
next
  case (Cons a pre)
  then show ?case using verify_each_pass [of a ids lib key st uid "pre @ rest"] by simp
qed

lemma verify_each_all:
  assumes "set (map questionId as) \<subseteq> set ids"
  shows "verify_each lib key (select_questions uid ids (security_questions st)) as = Inr True
         \<longleftrightarrow> list_all (answer_passes lib key st uid) as"
  using assms
proof (induction as)
  case Nil
  then show ?case by simp
next
  case (Cons a as)
  then have m: "questionId a \<in> set ids" by simp
  from Cons show ?case
    unfolding verify_each_head [OF m]
    by (auto simp: answer_passes_def split: option.splits)
qed

lemma verifySecurityAnswers_eq:
  assumes "\<not> fails st (issued st)" "\<not> fails st (Suc (issued st))"
    and "select_keys uid (biometric_keys st) = k # ks"
    and "load_private_key lib (encrypted_private_key k) = Some key"
  shows "verifySecurityAnswers lib st uid answers =
     (verify_each lib key (select_questions uid (map questionId answers) (security_questions st)) answers,
      st\<lparr>issued := Suc (Suc (issued st))\<rparr>)"
  using assms by (simp add: verifySecurityAnswers_def query_def Let_def)

lemma verifySecurityAnswers_no_keys:
  assumes "\<not> fails st (issued st)" "select_keys uid (biometric_keys st) = []"
  shows "verifySecurityAnswers lib st uid answers = (Inl KeysNotFound, st\<lparr>issued := Suc (issued st)\<rparr>)"
  using assms by (simp add: verifySecurityAnswers_def query_def Let_def)


lemma verifySecurityAnswers_tables:
  "sessions (snd (verifySecurityAnswers lib st uid answers)) = sessions st \<and>
   users (snd (verifySecurityAnswers lib st uid answers)) = users st \<and>
   biometric_keys (snd (verifySecurityAnswers lib st uid answers)) = biometric_keys st \<and>
   security_questions (snd (verifySecurityAnswers lib st uid answers)) = security_questions st"
  by (simp add: verifySecurityAnswers_def query_def Let_def split: list.splits option.splits)

lemma demo_keys: "select_keys 42 (biometric_keys demo_store) =
    [\<lparr>bk_user_id = 42, public_key = ''PUB'', encrypted_private_key = ''PRIV''\<rparr>]"
  by (simp add: select_keys_def demo_store_def)

lemma demo_load_key:
  "load_private_key demo_forge
     (encrypted_private_key \<lparr>bk_user_id = 42, public_key = ''PUB'', encrypted_private_key = ''PRIV''\<rparr>)
   = Some 5"
  by (simp add: demo_forge_def)

lemma demo_load_priv: "load_private_key demo_forge ''PRIV'' = Some 5"
  by (simp add: demo_forge_def)

lemma demo_stored_question:
  "stored_question demo_store 42 7 =
     Some \<lparr>q_id = 7, q_user_id = 42, question = ''pet name?'', encrypted_answer = ''enc:Rex'',
           signature = ''sha:Rex''\<rparr>"
  by (simp add: stored_question_def demo_store_def)

text \<open>
  C5. With the store answering both statements: a user without a key-pair row gets
  \<open>KeysNotFound\<close>. With a key pair that loads, the first supplied answer that does not
  pass decides the error: \<open>InvalidQuestionId\<close> when the user has no stored question of
  that id, \<open>AnswerMismatch\<close> when the stored answer decrypts to a different text (compared
  character by character), \<open>SignatureMismatch\<close> when the text agrees but its hash is not
  the stored signature. The call succeeds exactly when every answer passes, and it changes
  no table.
\<close>

theorem verify_answers_failures:
  assumes "\<not> fails st (issued st)" and "\<not> fails st (Suc (issued st))"
  shows
    "(select_keys uid (biometric_keys st) = [] \<longrightarrow>
        fst (verifySecurityAnswers lib st uid answers) = Inl KeysNotFound) \<and>
     (select_keys uid (biometric_keys st) = k # ks \<and>
      load_private_key lib (encrypted_private_key k) = Some key \<longrightarrow>
        (fst (verifySecurityAnswers lib st uid answers) = Inr True \<longleftrightarrow>
           list_all (answer_passes lib key st uid) answers) \<and>
        (answers = pre @ a # post \<and> list_all (answer_passes lib key st uid) pre \<longrightarrow>
           (stored_question st uid (questionId a) = None \<longrightarrow>
              fst (verifySecurityAnswers lib st uid answers) = Inl InvalidQuestionId) \<and>
           (stored_question st uid (questionId a) = Some q \<and>
            rsa_decrypt lib key (encrypted_answer q) = Some p \<and> p \<noteq> answer a \<longrightarrow>
              fst (verifySecurityAnswers lib st uid answers) = Inl AnswerMismatch) \<and>
           (stored_question st uid (questionId a) = Some q \<and>
            rsa_decrypt lib key (encrypted_answer q) = Some (answer a) \<and>
            sha256_hex lib (answer a) \<noteq> signature q \<longrightarrow>
              fst (verifySecurityAnswers lib st uid answers) = Inl SignatureMismatch))) \<and>
     sessions (snd (verifySecurityAnswers lib st uid answers)) = sessions st \<and>
     users (snd (verifySecurityAnswers lib st uid answers)) = users st \<and>
     biometric_keys (snd (verifySecurityAnswers lib st uid answers)) = biometric_keys st \<and>
     security_questions (snd (verifySecurityAnswers lib st uid answers)) = security_questions st"
proof -
  let ?res = "fst (verifySecurityAnswers lib st uid answers)"
  let ?rows = "select_questions uid (map questionId answers) (security_questions st)"
  have none: "select_keys uid (biometric_keys st) = [] \<longrightarrow> ?res = Inl KeysNotFound"
    using assms(1) by (simp add: verifySecurityAnswers_no_keys)
  have some: "?res = verify_each lib key ?rows answers"
    if "select_keys uid (biometric_keys st) = k # ks"
      and "load_private_key lib (encrypted_private_key k) = Some key"
    using that assms by (simp add: verifySecurityAnswers_eq)
  have all: "verify_each lib key ?rows answers = Inr True \<longleftrightarrow>
      list_all (answer_passes lib key st uid) answers"
    by (rule verify_each_all) simp
  have at: "verify_each lib key ?rows answers =
     (case stored_question st uid (questionId a) of
        None \<Rightarrow> Inl InvalidQuestionId
      | Some q \<Rightarrow>
          (case rsa_decrypt lib key (encrypted_answer q) of
             None \<Rightarrow> Inl Internal
           | Some p \<Rightarrow>
               if p \<noteq> answer a then Inl AnswerMismatch
               else if sha256_hex lib p \<noteq> signature q then Inl SignatureMismatch
               else verify_each lib key ?rows post))"
    if split: "answers = pre @ a # post" and pre: "list_all (answer_passes lib key st uid) pre"
  proof -
    have sub: "set (map questionId pre) \<subseteq> set (map questionId answers)"
      using split by auto
    have mem: "questionId a \<in> set (map questionId answers)"
      using split by simp
    have "verify_each lib key ?rows (pre @ a # post) = verify_each lib key ?rows (a # post)"
      using sub pre by (rule verify_each_prefix)
    also have "\<dots> = (case stored_question st uid (questionId a) of
        None \<Rightarrow> Inl InvalidQuestionId
      | Some q \<Rightarrow>
          (case rsa_decrypt lib key (encrypted_answer q) of
             None \<Rightarrow> Inl Internal
           | Some p \<Rightarrow>
               if p \<noteq> answer a then Inl AnswerMismatch
               else if sha256_hex lib p \<noteq> signature q then Inl SignatureMismatch
               else verify_each lib key ?rows post))"
      using mem by (rule verify_each_head)
    finally show ?thesis using split by simp
  qed
  have keyed: "select_keys uid (biometric_keys st) = k # ks \<and>
      load_private_key lib (encrypted_private_key k) = Some key \<longrightarrow>
        (?res = Inr True \<longleftrightarrow> list_all (answer_passes lib key st uid) answers) \<and>
        (answers = pre @ a # post \<and> list_all (answer_passes lib key st uid) pre \<longrightarrow>
           (stored_question st uid (questionId a) = None \<longrightarrow> ?res = Inl InvalidQuestionId) \<and>
           (stored_question st uid (questionId a) = Some q \<and>
            rsa_decrypt lib key (encrypted_answer q) = Some p \<and> p \<noteq> answer a \<longrightarrow>
              ?res = Inl AnswerMismatch) \<and>
           (stored_question st uid (questionId a) = Some q \<and>
            rsa_decrypt lib key (encrypted_answer q) = Some (answer a) \<and>
            sha256_hex lib (answer a) \<noteq> signature q \<longrightarrow>
              ?res = Inl SignatureMismatch))"
  proof (intro impI, elim conjE)
    assume k: "select_keys uid (biometric_keys st) = k # ks"
      and l: "load_private_key lib (encrypted_private_key k) = Some key"
    note r = some [OF k l]
    show "(?res = Inr True \<longleftrightarrow> list_all (answer_passes lib key st uid) answers) \<and>
        (answers = pre @ a # post \<and> list_all (answer_passes lib key st uid) pre \<longrightarrow>
           (stored_question st uid (questionId a) = None \<longrightarrow> ?res = Inl InvalidQuestionId) \<and>
           (stored_question st uid (questionId a) = Some q \<and>
            rsa_decrypt lib key (encrypted_answer q) = Some p \<and> p \<noteq> answer a \<longrightarrow>
              ?res = Inl AnswerMismatch) \<and>
           (stored_question st uid (questionId a) = Some q \<and>
            rsa_decrypt lib key (encrypted_answer q) = Some (answer a) \<and>
            sha256_hex lib (answer a) \<noteq> signature q \<longrightarrow>
              ?res = Inl SignatureMismatch))"
      unfolding r using all at by simp
  qed
  from none keyed verifySecurityAnswers_tables [of lib st uid answers] show ?thesis
    by (intro conjI) simp_all
qed

theorem verify_answers_failures_witness:
  "\<not> fails demo_store (issued demo_store) \<and> \<not> fails demo_store (Suc (issued demo_store)) \<and>
   fst (verifySecurityAnswers demo_forge demo_store 42 [\<lparr>questionId = 7, answer = ''rex''\<rparr>]) =
     Inl AnswerMismatch \<and>
   fst (verifySecurityAnswers demo_forge demo_store 42 [\<lparr>questionId = 7, answer = ''Rex''\<rparr>]) =
     Inr True \<and>
   fst (verifySecurityAnswers demo_forge demo_store 42
          [\<lparr>questionId = 7, answer = ''Rex''\<rparr>, \<lparr>questionId = 2, answer = ''Rex''\<rparr>]) =
     Inl InvalidQuestionId \<and>
   fst (verifySecurityAnswers demo_forge demo_store 41 [\<lparr>questionId = 7, answer = ''Rex''\<rparr>]) =
     Inl KeysNotFound"
proof -
  have f1: "\<not> fails demo_store (issued demo_store)" by (simp add: demo_store_def)
  have f2: "\<not> fails demo_store (Suc (issued demo_store))" by (simp add: demo_store_def)
  have rex: "answer_passes demo_forge 5 demo_store 42 \<lparr>questionId = 7, answer = ''Rex''\<rparr>"
    by (simp add: answer_passes_def demo_stored_question) (simp add: demo_forge_def)
  have dec: "rsa_decrypt demo_forge 5 ''enc:Rex'' = Some ''Rex''"
    by (simp add: demo_forge_def)
  have q2: "stored_question demo_store 42 2 = None"
    by (simp add: stored_question_def demo_store_def)
  have k41: "select_keys 41 (biometric_keys demo_store) = []"
    by (simp add: select_keys_def demo_store_def)
  note k42 = demo_keys and l42 = demo_load_priv and q7 = demo_stored_question
  have w1: "fst (verifySecurityAnswers demo_forge demo_store 42 [\<lparr>questionId = 7, answer = ''rex''\<rparr>]) =
     Inl AnswerMismatch"
    using verify_answers_failures [OF f1 f2, where lib = demo_forge and uid = 42
        and answers = "[\<lparr>questionId = 7, answer = ''rex''\<rparr>]" and pre = "[]"
        and a = "\<lparr>questionId = 7, answer = ''rex''\<rparr>" and post = "[]"
        and k = "\<lparr>bk_user_id = 42, public_key = ''PUB'', encrypted_private_key = ''PRIV''\<rparr>"
        and ks = "[]" and key = 5 and p = "''Rex''"
        and q = "\<lparr>q_id = 7, q_user_id = 42, question = ''pet name?'',
                  encrypted_answer = ''enc:Rex'', signature = ''sha:Rex''\<rparr>"]
    by (simp add: k42 l42 q7 dec)
  have w2: "fst (verifySecurityAnswers demo_forge demo_store 42 [\<lparr>questionId = 7, answer = ''Rex''\<rparr>]) =
     Inr True"
    using verify_answers_failures [OF f1 f2, where lib = demo_forge and uid = 42
        and answers = "[\<lparr>questionId = 7, answer = ''Rex''\<rparr>]"
        and k = "\<lparr>bk_user_id = 42, public_key = ''PUB'', encrypted_private_key = ''PRIV''\<rparr>"
        and ks = "[]" and key = 5]
    by (simp add: k42 l42 rex)
  have w3: "fst (verifySecurityAnswers demo_forge demo_store 42
          [\<lparr>questionId = 7, answer = ''Rex''\<rparr>, \<lparr>questionId = 2, answer = ''Rex''\<rparr>]) =
     Inl InvalidQuestionId"
    using verify_answers_failures [OF f1 f2, where lib = demo_forge and uid = 42
        and answers = "[\<lparr>questionId = 7, answer = ''Rex''\<rparr>, \<lparr>questionId = 2, answer = ''Rex''\<rparr>]"
        and pre = "[\<lparr>questionId = 7, answer = ''Rex''\<rparr>]"
        and a = "\<lparr>questionId = 2, answer = ''Rex''\<rparr>" and post = "[]"
        and k = "\<lparr>bk_user_id = 42, public_key = ''PUB'', encrypted_private_key = ''PRIV''\<rparr>"
        and ks = "[]" and key = 5]
    by (simp add: k42 l42 rex q2)
  have w4: "fst (verifySecurityAnswers demo_forge demo_store 41 [\<lparr>questionId = 7, answer = ''Rex''\<rparr>]) =
     Inl KeysNotFound"
    using verify_answers_failures [OF f1 f2, where lib = demo_forge and uid = 41
        and answers = "[\<lparr>questionId = 7, answer = ''Rex''\<rparr>]"]
    by (simp add: k41)
  from f1 f2 w1 w2 w3 w4 show ?thesis by simp
qed

text \<open>
  C10. For a user with a key-pair row whose private key loads, the store answering both
  statements, an empty list of answers verifies: the result is success whatever the
  table of security questions holds.
\<close>

theorem verify_no_answers_succeeds:
  assumes "\<not> fails st (issued st)" and "\<not> fails st (Suc (issued st))"
    and "select_keys uid (biometric_keys st) = k # ks"
    and "load_private_key lib (encrypted_private_key k) = Some key"
  shows "verifySecurityAnswers lib st uid [] = (Inr True, st\<lparr>issued := Suc (Suc (issued st))\<rparr>) \<and>
         select_questions uid (map questionId []) (security_questions st) = [] \<and>
         fst (verifySecurityAnswers lib (st\<lparr>security_questions := qs\<rparr>) uid []) = Inr True"
proof -
  have "verifySecurityAnswers lib (st\<lparr>security_questions := qs\<rparr>) uid [] =
      (Inr True, st\<lparr>security_questions := qs, issued := Suc (Suc (issued st))\<rparr>)"
    using assms by (simp add: verifySecurityAnswers_def query_def Let_def)
  moreover have "verifySecurityAnswers lib st uid [] = (Inr True, st\<lparr>issued := Suc (Suc (issued st))\<rparr>)"
    using assms by (simp add: verifySecurityAnswers_eq)
  ultimately show ?thesis by (simp add: select_questions_def)
qed

theorem verify_no_answers_succeeds_witness:
  "\<not> fails demo_store (issued demo_store) \<and> \<not> fails demo_store (Suc (issued demo_store)) \<and>
   select_keys 42 (biometric_keys demo_store) =
     [\<lparr>bk_user_id = 42, public_key = ''PUB'', encrypted_private_key = ''PRIV''\<rparr>] \<and>
   verifySecurityAnswers demo_forge demo_store 42 [] =
     (Inr True, demo_store\<lparr>issued := Suc (Suc (issued demo_store))\<rparr>)"
proof -
  have f1: "\<not> fails demo_store (issued demo_store)" by (simp add: demo_store_def)
  have f2: "\<not> fails demo_store (Suc (issued demo_store))" by (simp add: demo_store_def)
  show ?thesis
    using f1 f2 demo_keys verify_no_answers_succeeds [OF f1 f2 demo_keys demo_load_key]
    by simp
qed


section \<open>Field encryption\<close>

lemma split_on_notin: "d \<notin> set s \<Longrightarrow> split_on d s = [s]"
  by (induction s) auto

lemma split_on_append:
  "d \<notin> set a \<Longrightarrow> split_on d (a @ d # rest) = a # split_on d rest"
  by (induction a) auto

lemma unat_unit_of: "unat (unit_of c) = of_char c"
proof -
  have "(of_char c :: nat) < 256" by simp
  also have "(256 :: nat) < 2 ^ LENGTH(16)" by simp
  finally show ?thesis by (simp add: unit_of_def unat_of_nat)
qed

lemma unit_of_eq_iff: "unit_of a = unit_of b \<longleftrightarrow> a = b"
proof
  assume "unit_of a = unit_of b"
  then have "unat (unit_of a) = unat (unit_of b)" by simp
  then show "a = b" by (simp add: unat_unit_of)
qed simp

lemma unit_of_in_js_string: "unit_of d \<in> set (js_string s) \<longleftrightarrow> d \<in> set s"
  by (auto simp: js_string_def unit_of_eq_iff)

lemma js_string_append: "js_string (a @ b) = js_string a @ js_string b"
  by (simp add: js_string_def)

lemma js_string_Cons: "js_string (c # cs) = unit_of c # js_string cs"
  by (simp add: js_string_def)

lemma hex_table:
  "list_all (\<lambda>d. hex_digit d \<noteq> CHR '':'' \<and>
      (let n = (of_char (hex_digit d) :: nat) in
         if 48 \<le> n \<and> n \<le> 57 then Some (n - 48)
         else if 97 \<le> n \<and> n \<le> 102 then Some (n - 87)
         else if 65 \<le> n \<and> n \<le> 70 then Some (n - 55)
         else None) = Some d) [0..<16]"
  by code_simp

lemma hex_digit_not_colon: "d < 16 \<Longrightarrow> hex_digit d \<noteq> CHR '':''"
  using hex_table by (simp add: list_all_iff)

lemma hex_val_hex_digit: "d < 16 \<Longrightarrow> hex_val (unit_of (hex_digit d)) = Some d"
  using hex_table by (simp add: list_all_iff hex_val_def unat_unit_of)

lemma char_nibbles: "(of_char c :: nat) div 16 < 16"
proof -
  have "(of_char c :: nat) < 16 * 16" by simp
  then show ?thesis by (rule less_mult_imp_div_less)
qed

lemma to_hex_no_colon: "CHR '':'' \<notin> set (to_hex s)"
proof (induction s)
  case Nil
  then show ?case by simp
next
  case (Cons c s)
  have "hex_digit ((of_char c :: nat) div 16) \<noteq> CHR '':''"
    by (rule hex_digit_not_colon) (rule char_nibbles)
  moreover have "hex_digit ((of_char c :: nat) mod 16) \<noteq> CHR '':''"
    by (rule hex_digit_not_colon) simp
  ultimately show ?case using Cons by auto
qed

lemma from_hex_to_hex: "from_hex (js_string (to_hex s)) = s"
proof (induction s)
  case Nil
  then show ?case by (simp add: js_string_def)
next
  case (Cons c s)
  have h: "hex_val (unit_of (hex_digit ((of_char c :: nat) div 16))) = Some ((of_char c :: nat) div 16)"
    by (rule hex_val_hex_digit) (rule char_nibbles)
  have l: "hex_val (unit_of (hex_digit ((of_char c :: nat) mod 16))) = Some ((of_char c :: nat) mod 16)"
    by (rule hex_val_hex_digit) simp
  have "char_of (16 * ((of_char c :: nat) div 16) + (of_char c :: nat) mod 16) = c"
    by simp
  with h l Cons show ?case by (simp add: js_string_Cons)
qed

lemma even_length_to_hex: "even (length (js_string (to_hex s)))"
  by (induction s) (simp_all add: js_string_def)

lemma hex_input_to_hex: "hex_input (js_string (to_hex s)) = Some s"
  by (simp add: hex_input_def even_length_to_hex from_hex_to_hex)





















lemma demo_gcm_decrypt:
  "gcm_decrypt demo_gcm ''k'' demo_iv ''vottery'' (replicate 16 CHR ''t'') (rev bs) = Some bs"
  by (simp add: demo_gcm_def demo_iv_def)




lemma split_on_js_string:
  "split_on (unit_of d) (js_string s) = map js_string (split_on d s)"
proof (induction s)
  case Nil
  then show ?case by (simp add: js_string_def)
next
  case (Cons c s)
  then show ?case
    by (cases "split_on d s") (auto simp: js_string_def unit_of_eq_iff)
qed

lemma split_extra_field:
  "split_on (unit_of CHR '':'')
     (js_string (to_hex a @ '':'' @ to_hex b @ '':'' @ to_hex c @ '':'' @ extra)) =
   js_string (to_hex a) # js_string (to_hex b) # js_string (to_hex c) #
     split_on (unit_of CHR '':'') (js_string extra)"
  by (simp add: js_string_append js_string_Cons split_on_append unit_of_in_js_string
        to_hex_no_colon)

lemma decrypt_attempt_extra_field:
  "decrypt_attempt lib key
     (js_string (to_hex iv @ '':'' @ to_hex tag @ '':'' @ to_hex ct @ '':'' @ extra)) =
     (case gcm_decrypt lib key iv ''vottery'' tag ct of
        None \<Rightarrow> None
      | Some decrypted \<Rightarrow> Some (utf8_decode lib decrypted))"
  by (simp only: decrypt_attempt_def split_extra_field list.case hex_input_to_hex option.case
        from_hex_to_hex)

lemma split_00: "split_on (unit_of CHR '':'') (js_string ''00'') = [js_string ''00'']"
  by (simp add: split_on_js_string)

lemma demo_four_fields:
  "''69696969696969696969696969696969:74747474747474747474747474747474:786552:00'' =
     to_hex demo_iv @ '':'' @ to_hex (replicate 16 CHR ''t'') @ '':'' @ to_hex ''xeR'' @ '':'' @ ''00''"
  by code_simp

lemma demo_four_fields_split:
  "split_on CHR '':''
     ''69696969696969696969696969696969:74747474747474747474747474747474:786552:00'' =
   [''69696969696969696969696969696969'', ''74747474747474747474747474747474'', ''786552'', ''00'']"
  by code_simp

lemma demo_decode_Rex: "utf8_decode demo_gcm ''Rex'' = js_string ''Rex''"
  by (simp add: utf8_decode_def utf8_parse.simps decode_step_def units_of_def js_string_def
        unit_of_def)

text \<open>
  C9, as stated, fails: an envelope followed by a fourth field is not of the format
  \<open>iv:authTag:encryptedHex\<close>, yet it is decrypted (the extra field is ignored) and the
  plaintext is returned in place of the input.
\<close>

theorem decrypt_malformed_counterexample:
  "\<not> well_formed_envelope (js_string
       ''69696969696969696969696969696969:74747474747474747474747474747474:786552:00'') \<and>
   decryptSensitiveData demo_gcm ''k'' (Str (js_string
       ''69696969696969696969696969696969:74747474747474747474747474747474:786552:00'')) =
     Str (js_string ''Rex'') \<and>
   Str (js_string ''Rex'') \<noteq> Str (js_string
       ''69696969696969696969696969696969:74747474747474747474747474747474:786552:00'')"
proof -
  let ?s = "''69696969696969696969696969696969:74747474747474747474747474747474:786552:00''"
  have a: "\<not> well_formed_envelope (js_string ?s)"
    by (simp only: well_formed_envelope_def split_on_js_string demo_four_fields_split) simp
  have "gcm_decrypt demo_gcm ''k'' demo_iv ''vottery'' (replicate 16 CHR ''t'') (rev ''Rex'') = Some ''Rex''"
    by (rule demo_gcm_decrypt)
  then have "decrypt_attempt demo_gcm ''k'' (js_string ?s) = Some (js_string ''Rex'')"
    by (simp only: demo_four_fields decrypt_attempt_extra_field) (simp add: demo_decode_Rex)
  moreover have "js_string ?s \<noteq> [] \<and> unit_of CHR '':'' \<in> set (js_string ?s)"
    by (simp add: unit_of_in_js_string) (simp add: js_string_def)
  ultimately have b: "decryptSensitiveData demo_gcm ''k'' (Str (js_string ?s)) = Str (js_string ''Rex'')"
    by (simp add: decryptSensitiveData_def)
  have c: "Str (js_string ''Rex'') \<noteq> Str (js_string ?s)"
    by (simp add: js_string_def)
  from a b c show ?thesis by simp
qed

text \<open>
  C9, amended. \<open>decryptSensitiveData\<close> returns a value for every input and never raises.
  It returns the input unchanged when the input is not a string, is empty, has no colon,
  has fewer than three colon-separated fields, has a third field of odd length, or when
  the cipher library rejects the decoded iv, tag and ciphertext (a tag that does not
  verify included). In every other case, further fields or not, it returns the text
  decoded from the plaintext that the first three fields decrypt to.
\<close>

theorem decrypt_fails_open:
  "decryptSensitiveData lib key Null = Null \<and>
   decryptSensitiveData lib key (NonString n) = NonString n \<and>
   (s = [] \<or> unit_of CHR '':'' \<notin> set s \<or> length (split_on (unit_of CHR '':'') s) < 3
      \<longrightarrow> decryptSensitiveData lib key (Str s) = Str s) \<and>
   (split_on (unit_of CHR '':'') s = ivHex # authTagHex # encryptedHex # others \<and>
    (odd (length encryptedHex) \<or>
     gcm_decrypt lib key (from_hex ivHex) ''vottery'' (from_hex authTagHex) (from_hex encryptedHex) = None)
      \<longrightarrow> decryptSensitiveData lib key (Str s) = Str s) \<and>
   (split_on (unit_of CHR '':'') s = ivHex # authTagHex # encryptedHex # others \<and>
    even (length encryptedHex) \<and>
    gcm_decrypt lib key (from_hex ivHex) ''vottery'' (from_hex authTagHex) (from_hex encryptedHex) = Some pt
      \<longrightarrow> decryptSensitiveData lib key (Str s) = Str (utf8_decode lib pt))"
proof -
  have short: "decrypt_attempt lib key s = None" if "length (split_on (unit_of CHR '':'') s) < 3"
    using that by (auto simp: decrypt_attempt_def split: list.splits)
  have a: "s = [] \<or> unit_of CHR '':'' \<notin> set s \<or> length (split_on (unit_of CHR '':'') s) < 3
      \<longrightarrow> decryptSensitiveData lib key (Str s) = Str s"
    using short by (auto simp: decryptSensitiveData_def)
  have b: "split_on (unit_of CHR '':'') s = ivHex # authTagHex # encryptedHex # others \<and>
    (odd (length encryptedHex) \<or>
     gcm_decrypt lib key (from_hex ivHex) ''vottery'' (from_hex authTagHex) (from_hex encryptedHex) = None)
      \<longrightarrow> decryptSensitiveData lib key (Str s) = Str s"
    by (auto simp: decryptSensitiveData_def decrypt_attempt_def hex_input_def)
  have c: "decryptSensitiveData lib key (Str s) = Str (utf8_decode lib pt)"
    if sp: "split_on (unit_of CHR '':'') s = ivHex # authTagHex # encryptedHex # others"
      and ev: "even (length encryptedHex)"
      and g: "gcm_decrypt lib key (from_hex ivHex) ''vottery'' (from_hex authTagHex)
                (from_hex encryptedHex) = Some pt"
  proof -
    have "s \<noteq> []" using sp by auto
    moreover have "unit_of CHR '':'' \<in> set s"
    proof (rule ccontr)
      assume "unit_of CHR '':'' \<notin> set s"
      then have "split_on (unit_of CHR '':'') s = [s]" by (rule split_on_notin)
      with sp show False by simp
    qed
    moreover have "decrypt_attempt lib key s = Some (utf8_decode lib pt)"
      using sp ev g by (simp add: decrypt_attempt_def hex_input_def)
    ultimately show ?thesis by (simp add: decryptSensitiveData_def)
  qed
  from a b c show ?thesis by (simp add: decryptSensitiveData_def)
qed

theorem decrypt_fails_open_witness:
  "decryptSensitiveData demo_gcm ''k'' (Str (js_string ''a:b'')) = Str (js_string ''a:b'') \<and>
   decryptSensitiveData demo_gcm ''k'' (Str (js_string ''00:11:223'')) = Str (js_string ''00:11:223'') \<and>
   decryptSensitiveData demo_gcm ''k'' (Str (js_string ''plain'')) = Str (js_string ''plain'') \<and>
   decryptSensitiveData demo_gcm ''k'' (Str (js_string
       ''69696969696969696969696969696969:74747474747474747474747474747474:786552:00'')) =
     Str (js_string ''Rex'')"
proof -
  let ?s = "''69696969696969696969696969696969:74747474747474747474747474747474:786552:00''"
  have w1: "decryptSensitiveData demo_gcm ''k'' (Str (js_string ''a:b'')) = Str (js_string ''a:b'')"
    using decrypt_fails_open [where lib = demo_gcm and key = "''k''" and s = "js_string ''a:b''"]
    by (simp add: split_on_js_string)
  have w2: "decryptSensitiveData demo_gcm ''k'' (Str (js_string ''00:11:223'')) = Str (js_string ''00:11:223'')"
    using decrypt_fails_open [where lib = demo_gcm and key = "''k''" and s = "js_string ''00:11:223''"
      and ivHex = "js_string ''00''" and authTagHex = "js_string ''11''"
      and encryptedHex = "js_string ''223''" and others = "[]"]
    by (simp add: split_on_js_string) (simp add: js_string_def)
  have w3: "decryptSensitiveData demo_gcm ''k'' (Str (js_string ''plain'')) = Str (js_string ''plain'')"
    using decrypt_fails_open [where lib = demo_gcm and key = "''k''" and s = "js_string ''plain''"]
    by (simp add: unit_of_in_js_string)
  have sp: "split_on (unit_of CHR '':'') (js_string ?s) =
      js_string (to_hex demo_iv) # js_string (to_hex (replicate 16 CHR ''t'')) #
      js_string (to_hex ''xeR'') # [js_string ''00'']"
    by (simp only: demo_four_fields split_extra_field split_00)
  have g: "gcm_decrypt demo_gcm ''k'' (from_hex (js_string (to_hex demo_iv))) ''vottery''
      (from_hex (js_string (to_hex (replicate 16 CHR ''t'')))) (from_hex (js_string (to_hex ''xeR''))) =
      Some ''Rex''"
    using demo_gcm_decrypt [of "''Rex''"] by (simp only: from_hex_to_hex rev.simps append.simps)
  have w4: "decryptSensitiveData demo_gcm ''k'' (Str (js_string ?s)) = Str (utf8_decode demo_gcm ''Rex'')"
    using decrypt_fails_open [where lib = demo_gcm and key = "''k''" and s = "js_string ?s"
      and ivHex = "js_string (to_hex demo_iv)"
      and authTagHex = "js_string (to_hex (replicate 16 CHR ''t''))"
      and encryptedHex = "js_string (to_hex ''xeR'')" and others = "[js_string ''00'']"
      and pt = "''Rex''"] sp g even_length_to_hex [of "''xeR''"]
    by blast
  from w1 w2 w3 w4 show ?thesis by (simp only: demo_decode_Rex)
qed

end
